theory Spec2Isabelle
  imports Main "HOL-Library.Word" "HOL-Library.Monad_Syntax"
begin

unbundle bit_operations_syntax

section \<open>The Modbus client channel of MicroTBX-Modbus (tbxmb\_client.c)\<close>

text \<open>
  A shallow embedding of \<^verbatim>\<open>src/source/tbxmb_client.c\<close>. Every C function is a HOL
  function of the same name. What the C code leaves undefined (dereferencing a null or
  dangling pointer, indexing an array out of range, calling through a null function
  pointer) is the value \<open>None\<close> of the option monad; everything else returns \<open>Some\<close>.
\<close>

subsection \<open>Pointers, constants and the data model\<close>

text \<open>A C pointer: \<open>NULL\<close>, or a reference to an object.\<close>

datatype 'a ptr = NULL | Ptr 'a

text \<open>
  The macros below are used by tbxmb\_client.c and declared in headers that are not part
  of the source tree at hand (microtbx.h, tbxmb\_tp\_private.h); only
  \<open>TBX_MB_CLIENT_CONTEXT_TYPE\<close> is defined in the file itself (line 47).
\<close>

definition TBX_MB_CLIENT_CONTEXT_TYPE :: "8 word" where
  "TBX_MB_CLIENT_CONTEXT_TYPE = 23"

definition TBX_OK :: "8 word" where
  \<comment> \<open>Modelled from the spec: macro of microtbx.h; the success value of the binary
      success/failure result.\<close>
  "TBX_OK = 1"

definition TBX_ERROR :: "8 word" where
  \<comment> \<open>Modelled from the spec: macro of microtbx.h; the failure value of the binary
      success/failure result.\<close>
  "TBX_ERROR = 0"

definition TBX_TRUE :: "8 word" where
  \<comment> \<open>Modelled from the spec: macro of microtbx.h; boolean true.\<close>
  "TBX_TRUE = 1"

definition TBX_FALSE :: "8 word" where
  \<comment> \<open>Modelled from the spec: macro of microtbx.h; boolean false.\<close>
  "TBX_FALSE = 0"

definition TBX_OFF :: "8 word" where
  \<comment> \<open>Modelled from the spec: macro of microtbx.h; the state of a coil or discrete
      input that is off.\<close>
  "TBX_OFF = 0"

definition TBX_MB_TP_NODE_ADDR_MAX :: "8 word" where
  \<comment> \<open>Modelled from the spec: macro of tbxmb\_tp\_private.h, the spec's maximum node
      address; 247 is the highest server address of the Modbus protocol.\<close>
  "TBX_MB_TP_NODE_ADDR_MAX = 247"

definition TBX_MB_TP_NODE_ADDR_BROADCAST :: "8 word" where
  \<comment> \<open>Modelled from the spec: macro of tbxmb\_tp\_private.h; node address 0 is the
      broadcast address.\<close>
  "TBX_MB_TP_NODE_ADDR_BROADCAST = 0"

definition TBX_MB_FC04_READ_INPUT_REGISTERS :: "8 word" where
  \<comment> \<open>Modelled from the spec: macro of a header outside the tree; function code 0x04.\<close>
  "TBX_MB_FC04_READ_INPUT_REGISTERS = 4"

definition TBX_MB_FC_EXCEPTION_MASK :: "8 word" where
  \<comment> \<open>Modelled from the spec: macro of a header outside the tree; the exception
      indicator is the top bit of the code byte.\<close>
  "TBX_MB_FC_EXCEPTION_MASK = 128"

text \<open>
  \<open>tTbxMbTpPacket\<close> (declared in tbxmb\_tp\_private.h). The file reads and writes the
  members \<open>node\<close>, \<open>pdu.code\<close>, \<open>pdu.data[]\<close> and \<open>dataLen\<close>; the nested members are
  flattened and \<open>node\<close> is named \<open>packetNode\<close>, since \<open>node\<close> is a parameter of every
  public function.
\<close>

record tTbxMbTpPacket =
  packetNode :: "8 word"
  pduCode :: "8 word"
  pduData :: "8 word list"
  dataLen :: "8 word"

text \<open>The type of the two handler members: null, or the address of a named function.\<close>

datatype tTbxMbFcn = Fcn_TbxMbClientProcessEvent

text \<open>
  \<open>tTbxMbClientCtx\<close> (declared in tbxmb\_client\_private.h), with the members that
  \<open>TbxMbClientCreate\<close> initialises (lines 105 to 112). Semaphore handles and context
  blocks are addresses, written as natural numbers.
\<close>

record tTbxMbClientCtx =
  type :: "8 word"
  instancePtr :: "nat ptr"
  pollFcn :: "tTbxMbFcn ptr"
  processFcn :: "tTbxMbFcn ptr"
  responseTimeout :: "16 word"
  turnaroundDelay :: "16 word"
  responseSem :: "nat ptr"
  tpCtx :: "nat ptr"

text \<open>
  \<open>tTbxMbTpCtx\<close> (declared in tbxmb\_tp\_private.h), with the members the file uses.
  A function-pointer member is \<open>True\<close> when it is not null; what a call through it
  returns is given by the environment below. \<open>txPacket\<close> is the request buffer that
  \<open>getTxPacketFcn\<close> hands out.
\<close>

record tTbxMbTpCtx =
  channelCtx :: "nat ptr"
  isClient :: "8 word"
  transmitFcn :: bool
  receptionDoneFcn :: bool
  getRxPacketFcn :: bool
  getTxPacketFcn :: bool
  txPacket :: tTbxMbTpPacket

text \<open>
  \<open>tTbxMbEvent\<close> and its identifier (declared in tbxmb\_event\_private.h). The members
  \<open>context\<close> and \<open>id\<close> are named \<open>eventContext\<close> and \<open>eventId\<close>. The handler names two
  identifiers and has a \<open>default\<close> branch for every other value.
\<close>

datatype tTbxMbEventId =
    TBX_MB_EVENT_ID_PDU_RECEIVED
  | TBX_MB_EVENT_ID_PDU_TRANSMITTED
  | TBX_MB_EVENT_ID_OTHER nat

record tTbxMbEvent =
  eventContext :: "nat ptr"
  eventId :: tTbxMbEventId

text \<open>The argument \<open>sizeof(tTbxMbClientCtx)\<close> of the memory pool calls.\<close>

datatype tTbxMbSize = Sizeof_tTbxMbClientCtx

text \<open>
  The calls the file makes to its external collaborators (memory pool, OS abstraction
  layer, critical section, transport), with their arguments. A transport call carries
  the address of the transport context; \<open>CallTransmit\<close> also carries the request
  buffer as it is when transmission is requested.
\<close>

datatype tTbxMbCall =
    CallMemPoolAllocate tTbxMbSize
  | CallMemPoolCreate nat tTbxMbSize
  | CallMemPoolRelease nat
  | CallSemCreate
  | CallSemFree "nat ptr"
  | CallSemGive "nat ptr" "8 word"
  | CallSemTake "nat ptr" "16 word"
  | CallCriticalSectionEnter
  | CallCriticalSectionExit
  | CallGetTxPacket nat
  | CallTransmit nat tTbxMbTpPacket
  | CallGetRxPacket nat
  | CallReceptionDone nat

text \<open>
  The state: the memory that holds channel contexts and transport contexts (by address),
  the calls made so far (oldest first), the source lines of the assertions that were
  triggered so far, and the number of critical sections entered and not yet left.
\<close>

record tTbxMbState =
  clients :: "nat \<rightharpoonup> tTbxMbClientCtx"
  transports :: "nat \<rightharpoonup> tTbxMbTpCtx"
  calls :: "tTbxMbCall list"
  asserts :: "nat list"
  criticalNesting :: nat

text \<open>
  What the external collaborators return to one call of a public function of the file.
  Each public function makes each of these calls at most once, except for
  \<open>TbxMemPoolAllocate\<close>, which \<open>TbxMbClientCreate\<close> may call twice.
\<close>

record tTbxMbEnv =
  memPoolAllocateRet1 :: "nat ptr"
  memPoolAllocateRet2 :: "nat ptr"
  semCreateRet :: "nat ptr"
  getTxPacketRet :: bool
  transmitRet :: "8 word"
  semTakeRet :: "8 word"
  getRxPacketRet :: "tTbxMbTpPacket ptr"

definition TBX_ASSERT :: "nat \<Rightarrow> bool \<Rightarrow> tTbxMbState \<Rightarrow> tTbxMbState" where
  \<comment> \<open>Modelled from the spec: macro of microtbx.h. The spec describes a fail-fast
      mechanism that is active in diagnostic builds only and is followed by the defensive
      checks that decide a production build. A violated assertion is recorded with its
      source line and execution goes on: a diagnostic build stops at the first recorded
      line, a production build does not see the record.\<close>
  "TBX_ASSERT line cond s = (if cond then s else s\<lparr>asserts := asserts s @ [line]\<rparr>)"

definition call :: "tTbxMbCall \<Rightarrow> tTbxMbState \<Rightarrow> tTbxMbState" where
  "call c s = s\<lparr>calls := calls s @ [c]\<rparr>"

definition addr_of :: "'a ptr \<Rightarrow> 'a option" where
  \<comment> \<open>The object a pointer refers to; using \<open>NULL\<close> is undefined.\<close>
  "addr_of p = (case p of NULL \<Rightarrow> None | Ptr a \<Rightarrow> Some a)"

definition present :: "bool \<Rightarrow> unit option" where
  \<comment> \<open>Calling through a function pointer: undefined when it is null.\<close>
  "present fcn = (if fcn then Some () else None)"

definition array_load :: "'a list \<Rightarrow> nat \<Rightarrow> 'a option" where
  \<comment> \<open>\<open>xs[i]\<close> as a value: undefined beyond the array.\<close>
  "array_load xs i = (if i < length xs then Some (xs ! i) else None)"

definition array_store :: "'a list \<Rightarrow> nat \<Rightarrow> 'a \<Rightarrow> 'a list option" where
  \<comment> \<open>\<open>xs[i] = v\<close>: undefined beyond the array.\<close>
  "array_store xs i v = (if i < length xs then Some (xs[i := v]) else None)"

definition set_client ::
  "nat \<Rightarrow> (tTbxMbClientCtx \<Rightarrow> tTbxMbClientCtx) \<Rightarrow> tTbxMbState \<Rightarrow> tTbxMbState option" where
  \<comment> \<open>An assignment to a member of the channel context at an address.\<close>
  "set_client a f s = do {
     clientCtx \<leftarrow> clients s a;
     Some (s\<lparr>clients := (clients s)(a \<mapsto> f clientCtx)\<rparr>)
   }"

definition set_transport ::
  "nat \<Rightarrow> (tTbxMbTpCtx \<Rightarrow> tTbxMbTpCtx) \<Rightarrow> tTbxMbState \<Rightarrow> tTbxMbState option" where
  \<comment> \<open>An assignment to a member of the transport context at an address.\<close>
  "set_transport t f s = do {
     tp \<leftarrow> transports s t;
     Some (s\<lparr>transports := (transports s)(t \<mapsto> f tp)\<rparr>)
   }"

subsection \<open>The big-endian helpers (lines 229 to 251)\<close>

text \<open>
  The C parameter \<open>data\<close> points into a byte array; it is an array and an offset here.
  An access beyond the array is undefined.
\<close>

definition TbxMbClientExtractUInt16BE :: "8 word list \<Rightarrow> nat \<Rightarrow> 16 word option" where
  "TbxMbClientExtractUInt16BE data off =
     (if off + 1 < length data
      then Some (push_bit 8 (ucast (data ! off) :: 16 word) OR ucast (data ! (off + 1)))
      else None)"

definition TbxMbClientStoreUInt16BE :: "16 word \<Rightarrow> 8 word list \<Rightarrow> nat \<Rightarrow> 8 word list option" where
  "TbxMbClientStoreUInt16BE value data off =
     (if off + 1 < length data
      then Some (data[off := ucast (drop_bit 8 value), off + 1 := ucast value])
      else None)"

subsection \<open>Channel lifecycle (lines 69 to 157)\<close>

text \<open>
  \<open>TbxMbClientCreate\<close>. The parameters \<open>responseTimeout\<close> and \<open>turnaroundDelay\<close> carry
  a prime, since the context members have these names. The block that the pool returns
  need not hold a context yet: every member is written.
\<close>

definition TbxMbClientCreate ::
  "tTbxMbEnv \<Rightarrow> nat ptr \<Rightarrow> 16 word \<Rightarrow> 16 word \<Rightarrow> tTbxMbState
     \<Rightarrow> (nat ptr \<times> tTbxMbState) option" where
  "TbxMbClientCreate env transport responseTimeout' turnaroundDelay' s = do {
     let s = TBX_ASSERT 76 (transport \<noteq> NULL) s;
     if transport \<noteq> NULL then do {
       let s = call (CallMemPoolAllocate Sizeof_tTbxMbClientCtx) s;
       let newClientCtx = memPoolAllocateRet1 env;
       let (newClientCtx, s) =
         (if newClientCtx = NULL
          then (memPoolAllocateRet2 env,
                call (CallMemPoolAllocate Sizeof_tTbxMbClientCtx)
                  (call (CallMemPoolCreate 1 Sizeof_tTbxMbClientCtx) s))
          else (newClientCtx, s));
       let s = TBX_ASSERT 93 (newClientCtx \<noteq> NULL) s;
       if newClientCtx \<noteq> NULL then do {
         a \<leftarrow> addr_of newClientCtx;
         t \<leftarrow> addr_of transport;
         tp \<leftarrow> transports s t;
         let s = TBX_ASSERT 102 (transmitFcn tp \<and> receptionDoneFcn tp \<and>
                                 getRxPacketFcn tp \<and> getTxPacketFcn tp) s;
         let s = call CallSemCreate s;
         let s = s\<lparr>clients := (clients s)(a \<mapsto>
                   \<lparr>type = TBX_MB_CLIENT_CONTEXT_TYPE,
                    instancePtr = NULL,
                    pollFcn = NULL,
                    processFcn = Ptr Fcn_TbxMbClientProcessEvent,
                    responseTimeout = responseTimeout',
                    turnaroundDelay = turnaroundDelay',
                    responseSem = semCreateRet env,
                    tpCtx = Ptr t\<rparr>)\<rparr>;
         s \<leftarrow> set_transport t (\<lambda>tp. tp\<lparr>channelCtx := Ptr a\<rparr>) s;
         s \<leftarrow> set_transport t (\<lambda>tp. tp\<lparr>isClient := TBX_TRUE\<rparr>) s;
         Some (Ptr a, s)
       } else Some (NULL, s)
     } else Some (NULL, s)
   }"

text \<open>
  \<open>TbxMbClientFree\<close>, statement by statement for a non-null channel at address \<open>a\<close>
  (lines 141 to 155), so that the states between the statements can be inspected.
\<close>

definition TbxMbClientFree_body :: "nat \<Rightarrow> (tTbxMbState \<Rightarrow> tTbxMbState option) list" where
  "TbxMbClientFree_body a =
    [\<lambda>s. do { clientCtx \<leftarrow> clients s a;
              Some (TBX_ASSERT 141 (type clientCtx = TBX_MB_CLIENT_CONTEXT_TYPE) s) },
     \<lambda>s. do { clientCtx \<leftarrow> clients s a;
              Some (call (CallSemFree (responseSem clientCtx)) s) },
     \<lambda>s. Some (call CallCriticalSectionEnter (s\<lparr>criticalNesting := criticalNesting s + 1\<rparr>)),
     \<lambda>s. do { clientCtx \<leftarrow> clients s a;
              t \<leftarrow> addr_of (tpCtx clientCtx);
              set_transport t (\<lambda>tp. tp\<lparr>channelCtx := NULL\<rparr>) s },
     set_client a (\<lambda>c. c\<lparr>tpCtx := NULL\<rparr>),
     set_client a (\<lambda>c. c\<lparr>type := 0\<rparr>),
     set_client a (\<lambda>c. c\<lparr>pollFcn := NULL\<rparr>),
     set_client a (\<lambda>c. c\<lparr>processFcn := NULL\<rparr>),
     set_client a (\<lambda>c. c\<lparr>responseSem := NULL\<rparr>),
     \<lambda>s. Some (call CallCriticalSectionExit (s\<lparr>criticalNesting := criticalNesting s - 1\<rparr>)),
     \<lambda>s. Some (call (CallMemPoolRelease a) s)]"

text \<open>The states reached after each statement of a sequence, in order.\<close>

fun run :: "('s \<Rightarrow> 's option) list \<Rightarrow> 's \<Rightarrow> 's list option" where
  "run [] s = Some []"
| "run (f # fs) s = do { s' \<leftarrow> f s; ss \<leftarrow> run fs s'; Some (s' # ss) }"

definition TbxMbClientFree_states :: "nat ptr \<Rightarrow> tTbxMbState \<Rightarrow> tTbxMbState list option" where
  \<comment> \<open>The state after the assertion of line 133, followed by the state after each
      statement of the body.\<close>
  "TbxMbClientFree_states channel s = do {
     let s = TBX_ASSERT 133 (channel \<noteq> NULL) s;
     if channel \<noteq> NULL then do {
       a \<leftarrow> addr_of channel;
       ss \<leftarrow> run (TbxMbClientFree_body a) s;
       Some (s # ss)
     } else Some [s]
   }"

definition TbxMbClientFree :: "nat ptr \<Rightarrow> tTbxMbState \<Rightarrow> tTbxMbState option" where
  "TbxMbClientFree channel s = map_option last (TbxMbClientFree_states channel s)"

text \<open>
  The crosslink between the channel at address \<open>a\<close> and the transport at address \<open>t\<close>:
  the channel's \<open>tpCtx\<close> and the transport's \<open>channelCtx\<close> refer to each other, or both
  are null.
\<close>

definition crosslinked :: "nat \<Rightarrow> nat \<Rightarrow> tTbxMbState \<Rightarrow> bool" where
  "crosslinked a t s =
     (case (clients s a, transports s t) of
        (Some c, Some tp) \<Rightarrow>
          tpCtx c = Ptr t \<and> channelCtx tp = Ptr a \<or> tpCtx c = NULL \<and> channelCtx tp = NULL
      | _ \<Rightarrow> False)"

text \<open>What an observer of the collaborators sees of a state: the calls made so far and
  the nesting depth of critical sections.\<close>

definition call_trace :: "tTbxMbState \<Rightarrow> tTbxMbCall list \<times> nat" where
  "call_trace s = (calls s, criticalNesting s)"

subsection \<open>Event handling (lines 167 to 215)\<close>

definition TbxMbClientProcessEvent :: "tTbxMbEvent ptr \<Rightarrow> tTbxMbState \<Rightarrow> tTbxMbState option" where
  "TbxMbClientProcessEvent event s = do {
     let s = TBX_ASSERT 170 (event \<noteq> NULL) s;
     if event \<noteq> NULL then do {
       ev \<leftarrow> addr_of event;
       let s = TBX_ASSERT 176 (eventContext ev \<noteq> NULL) s;
       let clientCtx = eventContext ev;
       let s = TBX_ASSERT 180 (clientCtx \<noteq> NULL) s;
       if clientCtx \<noteq> NULL then do {
         a \<leftarrow> addr_of clientCtx;
         ctx \<leftarrow> clients s a;
         let s = TBX_ASSERT 185 (type ctx = TBX_MB_CLIENT_CONTEXT_TYPE) s;
         case eventId ev of
           TBX_MB_EVENT_ID_PDU_RECEIVED \<Rightarrow>
             Some (call (CallSemGive (responseSem ctx) TBX_FALSE) s)
         | TBX_MB_EVENT_ID_PDU_TRANSMITTED \<Rightarrow> Some s
         | TBX_MB_EVENT_ID_OTHER _ \<Rightarrow> Some (TBX_ASSERT 209 False s)
       } else Some s
     } else Some s
   }"

subsection \<open>Transceive (lines 266 to 301)\<close>

definition TbxMbClientTransceive ::
  "tTbxMbEnv \<Rightarrow> nat ptr \<Rightarrow> 8 word \<Rightarrow> tTbxMbState \<Rightarrow> (8 word \<times> tTbxMbState) option" where
  "TbxMbClientTransceive env clientCtx isBroadcast s = do {
     a \<leftarrow> addr_of clientCtx;
     ctx \<leftarrow> clients s a;
     let waitTimeout = responseTimeout ctx;
     let waitTimeout = (if isBroadcast = TBX_TRUE then turnaroundDelay ctx else waitTimeout);
     t \<leftarrow> addr_of (tpCtx ctx);
     tp \<leftarrow> transports s t;
     present (transmitFcn tp);
     let s = call (CallTransmit t (txPacket tp)) s;
     let result = transmitRet env;
     if result = TBX_OK then do {
       let s = call (CallSemTake (responseSem ctx) waitTimeout) s;
       if semTakeRet env = TBX_FALSE
       then (if isBroadcast = TBX_FALSE then Some (TBX_ERROR, s) else Some (result, s))
       else Some (result, s)
     } else Some (result, s)
   }"

subsection \<open>The public read and write operations (lines 319 to 644)\<close>

text \<open>
  An array that the caller passes by pointer is \<open>NULL\<close> or \<open>Ptr xs\<close>, where \<open>xs\<close> is the
  array's content; a function that may write to it returns the content after the call.
  \<open>TbxMbClientReadCoils\<close>, \<open>TbxMbClientReadInputs\<close>, \<open>TbxMbClientReadHoldingRegs\<close>,
  \<open>TbxMbClientWriteCoils\<close> and \<open>TbxMbClientWriteHoldingRegs\<close> have no more than the
  parameter check, the sanity check of the context type and, for the three read
  functions, a dummy write to \<open>[0]\<close>; \<open>result\<close> is never assigned after its
  initialisation.
\<close>

definition TbxMbClientReadCoils ::
  "nat ptr \<Rightarrow> 8 word \<Rightarrow> 16 word \<Rightarrow> 16 word \<Rightarrow> 8 word list ptr \<Rightarrow> tTbxMbState
     \<Rightarrow> (8 word \<times> 8 word list ptr \<times> tTbxMbState) option" where
  "TbxMbClientReadCoils channel node addr num coils s = do {
     let result = TBX_ERROR;
     let valid = (channel \<noteq> NULL \<and> node \<le> TBX_MB_TP_NODE_ADDR_MAX \<and> num \<ge> 1 \<and>
                  num \<le> 2000 \<and> coils \<noteq> NULL);
     let s = TBX_ASSERT 330 valid s;
     if valid then do {
       a \<leftarrow> addr_of channel;
       clientCtx \<leftarrow> clients s a;
       let s = TBX_ASSERT 340 (type clientCtx = TBX_MB_CLIENT_CONTEXT_TYPE) s;
       arr \<leftarrow> addr_of coils;
       arr \<leftarrow> array_store arr 0 TBX_OFF;
       Some (result, Ptr arr, s)
     } else Some (result, coils, s)
   }"

definition TbxMbClientReadInputs ::
  "nat ptr \<Rightarrow> 8 word \<Rightarrow> 16 word \<Rightarrow> 16 word \<Rightarrow> 8 word list ptr \<Rightarrow> tTbxMbState
     \<Rightarrow> (8 word \<times> 8 word list ptr \<times> tTbxMbState) option" where
  "TbxMbClientReadInputs channel node addr num inputs s = do {
     let result = TBX_ERROR;
     let valid = (channel \<noteq> NULL \<and> node \<le> TBX_MB_TP_NODE_ADDR_MAX \<and> num \<ge> 1 \<and>
                  num \<le> 2000 \<and> inputs \<noteq> NULL);
     let s = TBX_ASSERT 376 valid s;
     if valid then do {
       a \<leftarrow> addr_of channel;
       clientCtx \<leftarrow> clients s a;
       let s = TBX_ASSERT 386 (type clientCtx = TBX_MB_CLIENT_CONTEXT_TYPE) s;
       arr \<leftarrow> addr_of inputs;
       arr \<leftarrow> array_store arr 0 TBX_OFF;
       Some (result, Ptr arr, s)
     } else Some (result, inputs, s)
   }"

text \<open>
  The \<open>for\<close> loop of lines 491 to 494, from the value \<open>idx\<close> of the loop variable on.
  \<open>data\<close> is the response's \<open>pdu.data\<close>; \<open>regValPtr\<close> points to its element 1.
\<close>

function TbxMbClientReadInputRegs_for ::
  "8 word list \<Rightarrow> 8 word \<Rightarrow> 8 word \<Rightarrow> 16 word list \<Rightarrow> 16 word list option" where
  "TbxMbClientReadInputRegs_for data num idx inputRegs =
     (if idx < num then do {
        v \<leftarrow> TbxMbClientExtractUInt16BE data (1 + unat idx * 2);
        inputRegs \<leftarrow> array_store inputRegs (unat idx) v;
        TbxMbClientReadInputRegs_for data num (idx + 1) inputRegs
      } else Some inputRegs)"
  by pat_completeness auto

termination
proof (relation "measure (\<lambda>(data, num, idx, inputRegs). unat num - unat idx)")
  show "wf (measure (\<lambda>(data, num, idx, inputRegs). unat num - unat idx))"
    by simp
next
  fix data :: "8 word list" and num idx :: "8 word" and inputRegs x y :: "16 word list"
    and v :: "16 word"
  assume "idx < num"
  then have "unat idx < unat num"
    by (simp add: word_less_nat_alt)
  moreover have "unat num < 256"
    using unsigned_less [of num, where ?'a = nat] by simp
  ultimately have "unat (idx + 1) = unat idx + 1"
    by (simp add: unat_word_ariths)
  with \<open>unat idx < unat num\<close>
  show "((data, num, idx + 1, y), (data, num, idx, inputRegs))
          \<in> measure (\<lambda>(data, num, idx, inputRegs). unat num - unat idx)"
    by simp
qed

declare TbxMbClientReadInputRegs_for.simps [simp del]

definition TbxMbClientReadInputRegs ::
  "tTbxMbEnv \<Rightarrow> nat ptr \<Rightarrow> 8 word \<Rightarrow> 16 word \<Rightarrow> 8 word \<Rightarrow> 16 word list ptr \<Rightarrow> tTbxMbState
     \<Rightarrow> (8 word \<times> 16 word list ptr \<times> tTbxMbState) option" where
  "TbxMbClientReadInputRegs env channel node addr num inputRegs s = do {
     let result = TBX_ERROR;
     let valid = (channel \<noteq> NULL \<and> node \<le> TBX_MB_TP_NODE_ADDR_MAX \<and> num \<ge> 1 \<and>
                  num \<le> 125 \<and> inputRegs \<noteq> NULL);
     let s = TBX_ASSERT 420 valid s;
     if valid then do {
       a \<leftarrow> addr_of channel;
       clientCtx \<leftarrow> clients s a;
       let s = TBX_ASSERT 430 (type clientCtx = TBX_MB_CLIENT_CONTEXT_TYPE) s;
       t \<leftarrow> addr_of (tpCtx clientCtx);
       tp \<leftarrow> transports s t;
       present (getTxPacketFcn tp);
       let s = call (CallGetTxPacket t) s;
       if getTxPacketRet env then do {
         s \<leftarrow> set_transport t (\<lambda>tp. tp\<lparr>txPacket := (txPacket tp)\<lparr>packetNode := node\<rparr>\<rparr>) s;
         s \<leftarrow> set_transport t (\<lambda>tp. tp\<lparr>txPacket := (txPacket tp)
                 \<lparr>pduCode := TBX_MB_FC04_READ_INPUT_REGISTERS\<rparr>\<rparr>) s;
         s \<leftarrow> set_transport t (\<lambda>tp. tp\<lparr>txPacket := (txPacket tp)\<lparr>dataLen := 4\<rparr>\<rparr>) s;
         tp \<leftarrow> transports s t;
         d \<leftarrow> TbxMbClientStoreUInt16BE addr (pduData (txPacket tp)) 0;
         d \<leftarrow> TbxMbClientStoreUInt16BE (ucast num) d 2;
         s \<leftarrow> set_transport t (\<lambda>tp. tp\<lparr>txPacket := (txPacket tp)\<lparr>pduData := d\<rparr>\<rparr>) s;
         let isBroadcast = TBX_FALSE;
         let isBroadcast =
           (if node = TBX_MB_TP_NODE_ADDR_BROADCAST then TBX_TRUE else isBroadcast);
         (result, s) \<leftarrow> TbxMbClientTransceive env channel isBroadcast s;
         if result = TBX_OK \<and> isBroadcast = TBX_FALSE then do {
           present (getRxPacketFcn tp);
           let s = call (CallGetRxPacket t) s;
           let rxPacket = getRxPacketRet env;
           let s = TBX_ASSERT 469 (rxPacket \<noteq> NULL) s;
           (result, inputRegs) \<leftarrow>
             (if rxPacket \<noteq> NULL then do {
                rx \<leftarrow> addr_of rxPacket;
                byteCount \<leftarrow> array_load (pduData rx) 0;
                if packetNode rx \<noteq> node \<or>
                   pduCode rx AND TBX_MB_FC_EXCEPTION_MASK \<noteq> 0 \<or>
                   unat byteCount \<noteq> unat num * 2 \<or>
                   unat (dataLen rx) \<noteq> unat byteCount + 1
                then Some (TBX_ERROR, inputRegs)
                else do {
                  regs \<leftarrow> addr_of inputRegs;
                  regs \<leftarrow> TbxMbClientReadInputRegs_for (pduData rx) num 0 regs;
                  Some (result, Ptr regs)
                }
              } else Some (TBX_ERROR, inputRegs));
           present (receptionDoneFcn tp);
           let s = call (CallReceptionDone t) s;
           Some (result, inputRegs, s)
         } else Some (result, inputRegs, s)
       } else Some (result, inputRegs, s)
     } else Some (result, inputRegs, s)
   }"

definition TbxMbClientReadHoldingRegs ::
  "nat ptr \<Rightarrow> 8 word \<Rightarrow> 16 word \<Rightarrow> 8 word \<Rightarrow> 16 word list ptr \<Rightarrow> tTbxMbState
     \<Rightarrow> (8 word \<times> 16 word list ptr \<times> tTbxMbState) option" where
  "TbxMbClientReadHoldingRegs channel node addr num holdingRegs s = do {
     let result = TBX_ERROR;
     let valid = (channel \<noteq> NULL \<and> node \<le> TBX_MB_TP_NODE_ADDR_MAX \<and> num \<ge> 1 \<and>
                  num \<le> 125 \<and> holdingRegs \<noteq> NULL);
     let s = TBX_ASSERT 541 valid s;
     if valid then do {
       a \<leftarrow> addr_of channel;
       clientCtx \<leftarrow> clients s a;
       let s = TBX_ASSERT 551 (type clientCtx = TBX_MB_CLIENT_CONTEXT_TYPE) s;
       arr \<leftarrow> addr_of holdingRegs;
       arr \<leftarrow> array_store arr 0 0;
       Some (result, Ptr arr, s)
     } else Some (result, holdingRegs, s)
   }"

definition TbxMbClientWriteCoils ::
  "nat ptr \<Rightarrow> 8 word \<Rightarrow> 16 word \<Rightarrow> 16 word \<Rightarrow> 8 word list ptr \<Rightarrow> tTbxMbState
     \<Rightarrow> (8 word \<times> tTbxMbState) option" where
  "TbxMbClientWriteCoils channel node addr num coils s = do {
     let result = TBX_ERROR;
     let valid = (channel \<noteq> NULL \<and> node \<le> TBX_MB_TP_NODE_ADDR_MAX \<and> num \<ge> 1 \<and>
                  num \<le> 1968 \<and> coils \<noteq> NULL);
     let s = TBX_ASSERT 585 valid s;
     if valid then do {
       a \<leftarrow> addr_of channel;
       clientCtx \<leftarrow> clients s a;
       let s = TBX_ASSERT 595 (type clientCtx = TBX_MB_CLIENT_CONTEXT_TYPE) s;
       Some (result, s)
     } else Some (result, s)
   }"

definition TbxMbClientWriteHoldingRegs ::
  "nat ptr \<Rightarrow> 8 word \<Rightarrow> 16 word \<Rightarrow> 8 word \<Rightarrow> 8 word list ptr \<Rightarrow> tTbxMbState
     \<Rightarrow> (8 word \<times> tTbxMbState) option" where
  "TbxMbClientWriteHoldingRegs channel node addr num holdingRegs s = do {
     let result = TBX_ERROR;
     let valid = (channel \<noteq> NULL \<and> node \<le> TBX_MB_TP_NODE_ADDR_MAX \<and> num \<ge> 1 \<and>
                  num \<le> 123 \<and> holdingRegs \<noteq> NULL);
     let s = TBX_ASSERT 629 valid s;
     if valid then do {
       a \<leftarrow> addr_of channel;
       clientCtx \<leftarrow> clients s a;
       let s = TBX_ASSERT 639 (type clientCtx = TBX_MB_CLIENT_CONTEXT_TYPE) s;
       Some (result, s)
     } else Some (result, s)
   }"

subsection \<open>A concrete channel\<close>

text \<open>
  The state after \<open>TbxMbClientCreate\<close> has made the channel at address 0 for the
  transport at address 0, with a response timeout of 1000 ms, a turnaround delay of
  100 ms and the semaphore at address 7; the request buffer has eight data bytes here.
  The response is the one of the spec's scenario for a read of three input registers
  from node 5: byte count 6 and the values 10, 11, 12.
\<close>

definition scenario_client :: tTbxMbClientCtx where
  "scenario_client =
     \<lparr>type = TBX_MB_CLIENT_CONTEXT_TYPE, instancePtr = NULL, pollFcn = NULL,
      processFcn = Ptr Fcn_TbxMbClientProcessEvent, responseTimeout = 1000,
      turnaroundDelay = 100, responseSem = Ptr 7, tpCtx = Ptr 0\<rparr>"

definition scenario_request :: tTbxMbTpPacket where
  "scenario_request =
     \<lparr>packetNode = 0, pduCode = 0, pduData = [0, 0, 0, 0, 0, 0, 0, 0], dataLen = 0\<rparr>"

definition scenario_transport :: tTbxMbTpCtx where
  "scenario_transport =
     \<lparr>channelCtx = Ptr 0, isClient = TBX_TRUE, transmitFcn = True, receptionDoneFcn = True,
      getRxPacketFcn = True, getTxPacketFcn = True, txPacket = scenario_request\<rparr>"

definition scenario_state :: tTbxMbState where
  "scenario_state =
     \<lparr>clients = [0 \<mapsto> scenario_client], transports = [0 \<mapsto> scenario_transport],
      calls = [], asserts = [], criticalNesting = 0\<rparr>"

definition scenario_response :: tTbxMbTpPacket where
  "scenario_response =
     \<lparr>packetNode = 5, pduCode = 4, pduData = [6, 0, 10, 0, 11, 0, 12], dataLen = 7\<rparr>"

definition scenario_env :: tTbxMbEnv where
  "scenario_env =
     \<lparr>memPoolAllocateRet1 = Ptr 0, memPoolAllocateRet2 = NULL, semCreateRet = Ptr 7,
      getTxPacketRet = True, transmitRet = TBX_OK, semTakeRet = TBX_TRUE,
      getRxPacketRet = Ptr scenario_response\<rparr>"

text \<open>
  The same state with a channel context whose type no longer is that of a client
  channel, while its other members are as before.
\<close>

definition scenario_mistagged_state :: tTbxMbState where
  "scenario_mistagged_state =
     scenario_state\<lparr>clients := [0 \<mapsto> scenario_client\<lparr>type := 0\<rparr>]\<rparr>"

section \<open>Properties\<close>

subsection \<open>Shared facts\<close>

lemma TBX_results_distinct [simp]:
  "TBX_OK \<noteq> TBX_ERROR" "TBX_ERROR \<noteq> TBX_OK" "TBX_TRUE \<noteq> TBX_FALSE" "TBX_FALSE \<noteq> TBX_TRUE"
  by (simp_all add: TBX_OK_def TBX_ERROR_def TBX_TRUE_def TBX_FALSE_def)

lemmas scenario_defs =
  scenario_client_def scenario_request_def scenario_transport_def scenario_state_def
  scenario_response_def scenario_env_def

lemma word_ge1_nonempty:
  fixes n :: "'w::len word"
  assumes "1 \<le> n" and "unat n \<le> length xs"
  shows "0 < length xs"
proof -
  from \<open>1 \<le> n\<close> have "1 \<le> unat n"
    by (simp add: word_le_nat_alt)
  with \<open>unat n \<le> length xs\<close> show ?thesis
    by (cases xs) simp_all
qed

lemma Transceive_live:
  assumes "clients s a = Some ctx" and "tpCtx ctx = Ptr t" and "transports s t = Some tp"
    and "transmitFcn tp"
  shows "TbxMbClientTransceive env (Ptr a) isBroadcast s =
    Some (if transmitRet env = TBX_OK
          then (if semTakeRet env = TBX_FALSE \<and> isBroadcast = TBX_FALSE
                then TBX_ERROR else TBX_OK,
                call (CallSemTake (responseSem ctx)
                        (if isBroadcast = TBX_TRUE then turnaroundDelay ctx
                         else responseTimeout ctx))
                  (call (CallTransmit t (txPacket tp)) s))
          else (transmitRet env, call (CallTransmit t (txPacket tp)) s))"
  using assms
  by (simp add: TbxMbClientTransceive_def addr_of_def present_def Let_def)

subsection \<open>The big-endian helpers\<close>

lemma be16_join:
  "push_bit 8 (ucast (ucast (drop_bit 8 v) :: 8 word) :: 16 word) OR ucast (ucast v :: 8 word)
     = (v :: 16 word)"
  by (rule bit_word_eqI) (auto simp add: bit_simps)

lemma be16_high_byte: "unat (ucast (drop_bit 8 (v :: 16 word)) :: 8 word) = unat v div 256"
proof -
  have "unat v < 65536"
    using unsigned_less [of v, where ?'a = nat] by simp
  then have "unat v div 256 < 256"
    by simp
  then show ?thesis
    by (simp add: unsigned_ucast_eq unat_drop_bit_eq take_bit_eq_mod drop_bit_eq_div unat_div)
qed

lemma be16_low_byte: "unat (ucast (v :: 16 word) :: 8 word) = unat v mod 256"
  by (simp add: unsigned_ucast_eq take_bit_eq_mod)

text \<open>
  C8. Storing a 16-bit value with \<open>TbxMbClientStoreUInt16BE\<close> and reading it back with
  \<open>TbxMbClientExtractUInt16BE\<close> at the same place gives the value again; the first byte
  stored is the high byte of the value and the second byte is its low byte.
\<close>

theorem c8_store_extract_roundtrip:
  assumes "off + 1 < length data"
  shows "\<exists>data'. TbxMbClientStoreUInt16BE v data off = Some data'
           \<and> TbxMbClientExtractUInt16BE data' off = Some v
           \<and> data' ! off = ucast (drop_bit 8 v)
           \<and> data' ! (off + 1) = ucast v
           \<and> unat (data' ! off) = unat v div 256
           \<and> unat (data' ! (off + 1)) = unat v mod 256
           \<and> length data' = length data"
proof -
  let ?data' = "data[off := ucast (drop_bit 8 v), off + 1 := ucast v]"
  have stored: "TbxMbClientStoreUInt16BE v data off = Some ?data'"
    using assms by (simp add: TbxMbClientStoreUInt16BE_def)
  have hi: "?data' ! off = ucast (drop_bit 8 v)" and lo: "?data' ! (off + 1) = ucast v"
    using assms by simp_all
  have "TbxMbClientExtractUInt16BE ?data' off = Some v"
    using assms unfolding TbxMbClientExtractUInt16BE_def hi lo by (simp add: be16_join)
  moreover have "unat (?data' ! off) = unat v div 256"
    unfolding hi by (rule be16_high_byte)
  moreover have "unat (?data' ! (off + 1)) = unat v mod 256"
    unfolding lo by (rule be16_low_byte)
  ultimately show ?thesis
    using stored hi lo by simp
qed

theorem c8_store_extract_roundtrip_witness:
  "(2::nat) + 1 < length [0, 0, 0, 0 :: 8 word]
   \<and> TbxMbClientStoreUInt16BE 0x1234 [0, 0, 0, 0] 2 = Some [0, 0, 0x12, 0x34]
   \<and> TbxMbClientExtractUInt16BE [0, 0, 0x12, 0x34] 2 = Some 0x1234"
  using c8_store_extract_roundtrip [of 2 "[0, 0, 0, 0]" "0x1234"]
  by (simp add: TbxMbClientStoreUInt16BE_def TbxMbClientExtractUInt16BE_def)

subsection \<open>Transceive\<close>

text \<open>
  C1. For a channel context that is linked to a transport, \<open>TbxMbClientTransceive\<close>
  returns. A transmit call that does not return \<open>TBX_OK\<close> is the only call made and its
  result is returned, with no wait on the semaphore. After a successful transmit call
  the semaphore is taken once, with \<open>responseTimeout\<close> for a unicast request and with
  \<open>turnaroundDelay\<close> for a broadcast request; when the wait times out the result is
  \<open>TBX_ERROR\<close> for unicast and \<open>TBX_OK\<close> for broadcast.
\<close>

theorem c1_transceive:
  assumes "clients s a = Some ctx" and "tpCtx ctx = Ptr t" and "transports s t = Some tp"
    and "transmitFcn tp"
  shows "\<exists>result s'. TbxMbClientTransceive env (Ptr a) isBroadcast s = Some (result, s')
     \<and> clients s' = clients s \<and> transports s' = transports s
     \<and> (transmitRet env \<noteq> TBX_OK \<longrightarrow>
          result = transmitRet env \<and> calls s' = calls s @ [CallTransmit t (txPacket tp)])
     \<and> (transmitRet env = TBX_OK \<and> isBroadcast = TBX_FALSE \<longrightarrow>
          calls s' = calls s @ [CallTransmit t (txPacket tp),
                                CallSemTake (responseSem ctx) (responseTimeout ctx)]
          \<and> result = (if semTakeRet env = TBX_FALSE then TBX_ERROR else TBX_OK))
     \<and> (transmitRet env = TBX_OK \<and> isBroadcast = TBX_TRUE \<longrightarrow>
          calls s' = calls s @ [CallTransmit t (txPacket tp),
                                CallSemTake (responseSem ctx) (turnaroundDelay ctx)]
          \<and> result = TBX_OK)"
  unfolding Transceive_live [OF assms]
  by (simp add: call_def)

theorem c1_transceive_witness:
  "clients scenario_state 0 = Some scenario_client
   \<and> tpCtx scenario_client = Ptr 0
   \<and> transports scenario_state 0 = Some scenario_transport
   \<and> transmitFcn scenario_transport
   \<and> TbxMbClientTransceive (scenario_env\<lparr>semTakeRet := TBX_FALSE\<rparr>) (Ptr 0) TBX_FALSE
        scenario_state
      = Some (TBX_ERROR,
              scenario_state\<lparr>calls := [CallTransmit 0 scenario_request,
                                        CallSemTake (Ptr 7) 1000]\<rparr>)
   \<and> TbxMbClientTransceive (scenario_env\<lparr>semTakeRet := TBX_FALSE\<rparr>) (Ptr 0) TBX_TRUE
        scenario_state
      = Some (TBX_OK,
              scenario_state\<lparr>calls := [CallTransmit 0 scenario_request,
                                        CallSemTake (Ptr 7) 100]\<rparr>)
   \<and> TbxMbClientTransceive (scenario_env\<lparr>transmitRet := TBX_ERROR\<rparr>) (Ptr 0) TBX_FALSE
        scenario_state
      = Some (TBX_ERROR, scenario_state\<lparr>calls := [CallTransmit 0 scenario_request]\<rparr>)"
  using c1_transceive [of scenario_state 0 scenario_client 0 scenario_transport
      "scenario_env\<lparr>semTakeRet := TBX_FALSE\<rparr>" TBX_FALSE]
  by (simp add: scenario_defs TbxMbClientTransceive_def addr_of_def present_def call_def)

subsection \<open>Event handling\<close>

text \<open>
  C9. For an event whose context is a channel context of the client type,
  \<open>TbxMbClientProcessEvent\<close> returns. A PDU-received event adds one call: the give of the
  context's response semaphore, with \<open>TBX_FALSE\<close> as second argument; no other event
  makes a call. A PDU-transmitted event leaves the state as it is and triggers no
  assertion. Any other event identifier triggers the assertion of line 209 and changes
  nothing else.
\<close>

theorem c9_process_event:
  assumes "clients s a = Some ctx" and "type ctx = TBX_MB_CLIENT_CONTEXT_TYPE"
  shows "\<exists>s'. TbxMbClientProcessEvent (Ptr \<lparr>eventContext = Ptr a, eventId = i\<rparr>) s = Some s'
     \<and> (i = TBX_MB_EVENT_ID_PDU_RECEIVED \<longrightarrow>
          s' = s\<lparr>calls := calls s @ [CallSemGive (responseSem ctx) TBX_FALSE]\<rparr>)
     \<and> (i = TBX_MB_EVENT_ID_PDU_TRANSMITTED \<longrightarrow> s' = s)
     \<and> (i \<noteq> TBX_MB_EVENT_ID_PDU_RECEIVED \<and> i \<noteq> TBX_MB_EVENT_ID_PDU_TRANSMITTED \<longrightarrow>
          s' = s\<lparr>asserts := asserts s @ [209]\<rparr>)
     \<and> (i \<noteq> TBX_MB_EVENT_ID_PDU_RECEIVED \<longrightarrow> calls s' = calls s)
     \<and> clients s' = clients s \<and> transports s' = transports s"
  using assms
  by (cases i) (simp_all add: TbxMbClientProcessEvent_def addr_of_def TBX_ASSERT_def call_def)

theorem c9_process_event_witness:
  "clients scenario_state 0 = Some scenario_client
   \<and> type scenario_client = TBX_MB_CLIENT_CONTEXT_TYPE
   \<and> TbxMbClientProcessEvent
        (Ptr \<lparr>eventContext = Ptr 0, eventId = TBX_MB_EVENT_ID_PDU_RECEIVED\<rparr>) scenario_state
      = Some (scenario_state\<lparr>calls := [CallSemGive (Ptr 7) TBX_FALSE]\<rparr>)
   \<and> TbxMbClientProcessEvent
        (Ptr \<lparr>eventContext = Ptr 0, eventId = TBX_MB_EVENT_ID_PDU_TRANSMITTED\<rparr>) scenario_state
      = Some scenario_state
   \<and> TbxMbClientProcessEvent
        (Ptr \<lparr>eventContext = Ptr 0, eventId = TBX_MB_EVENT_ID_OTHER 0\<rparr>) scenario_state
      = Some (scenario_state\<lparr>asserts := [209]\<rparr>)"
  using c9_process_event [of scenario_state 0 scenario_client TBX_MB_EVENT_ID_PDU_RECEIVED]
    c9_process_event [of scenario_state 0 scenario_client TBX_MB_EVENT_ID_PDU_TRANSMITTED]
    c9_process_event [of scenario_state 0 scenario_client "TBX_MB_EVENT_ID_OTHER 0"]
  by (simp add: scenario_defs)

subsection \<open>The public operations: parameter checks and unfinished operations\<close>

text \<open>
  C4. A call of one of the six public read and write operations with a null channel, a
  null array pointer, a node address above \<open>TBX_MB_TP_NODE_ADDR_MAX\<close> or a count outside
  the operation's range returns \<open>TBX_ERROR\<close>; it makes no call to the transport or to any
  other collaborator, leaves the array and every context as they are, and the only
  thing recorded is the parameter assertion of the operation.
\<close>

theorem c4_invalid_parameters:
  shows "(channel = NULL \<or> coils = NULL \<or> TBX_MB_TP_NODE_ADDR_MAX < node \<or> num16 < 1
            \<or> 2000 < num16 \<longrightarrow>
            TbxMbClientReadCoils channel node addr num16 coils s
              = Some (TBX_ERROR, coils, s\<lparr>asserts := asserts s @ [330]\<rparr>)
          \<and> TbxMbClientReadInputs channel node addr num16 coils s
              = Some (TBX_ERROR, coils, s\<lparr>asserts := asserts s @ [376]\<rparr>))
       \<and> (channel = NULL \<or> regs = NULL \<or> TBX_MB_TP_NODE_ADDR_MAX < node \<or> num8 < 1
            \<or> 125 < num8 \<longrightarrow>
            TbxMbClientReadInputRegs env channel node addr num8 regs s
              = Some (TBX_ERROR, regs, s\<lparr>asserts := asserts s @ [420]\<rparr>)
          \<and> TbxMbClientReadHoldingRegs channel node addr num8 regs s
              = Some (TBX_ERROR, regs, s\<lparr>asserts := asserts s @ [541]\<rparr>))
       \<and> (channel = NULL \<or> coils = NULL \<or> TBX_MB_TP_NODE_ADDR_MAX < node \<or> num16 < 1
            \<or> 1968 < num16 \<longrightarrow>
            TbxMbClientWriteCoils channel node addr num16 coils s
              = Some (TBX_ERROR, s\<lparr>asserts := asserts s @ [585]\<rparr>))
       \<and> (channel = NULL \<or> bytes = NULL \<or> TBX_MB_TP_NODE_ADDR_MAX < node \<or> num8 < 1
            \<or> 123 < num8 \<longrightarrow>
            TbxMbClientWriteHoldingRegs channel node addr num8 bytes s
              = Some (TBX_ERROR, s\<lparr>asserts := asserts s @ [629]\<rparr>))"
  by (auto simp add: TbxMbClientReadCoils_def TbxMbClientReadInputs_def
      TbxMbClientReadInputRegs_def TbxMbClientReadHoldingRegs_def TbxMbClientWriteCoils_def
      TbxMbClientWriteHoldingRegs_def TBX_ASSERT_def Let_def simp flip: not_le)

theorem c4_invalid_parameters_witness:
  "(2000 :: 16 word) < 2001 \<and> (1968 :: 16 word) < 2001 \<and> (125 :: 8 word) < 126
   \<and> (123 :: 8 word) < 126
   \<and> TbxMbClientReadCoils (Ptr 0) 5 100 2001 (Ptr [1]) scenario_state
        = Some (TBX_ERROR, Ptr [1], scenario_state\<lparr>asserts := [330]\<rparr>)
   \<and> TbxMbClientReadInputs (Ptr 0) 5 100 2001 (Ptr [1]) scenario_state
        = Some (TBX_ERROR, Ptr [1], scenario_state\<lparr>asserts := [376]\<rparr>)
   \<and> TbxMbClientReadInputRegs scenario_env (Ptr 0) 5 100 126 (Ptr [7]) scenario_state
        = Some (TBX_ERROR, Ptr [7], scenario_state\<lparr>asserts := [420]\<rparr>)
   \<and> TbxMbClientReadHoldingRegs (Ptr 0) 5 100 126 (Ptr [7]) scenario_state
        = Some (TBX_ERROR, Ptr [7], scenario_state\<lparr>asserts := [541]\<rparr>)
   \<and> TbxMbClientWriteCoils (Ptr 0) 5 100 2001 (Ptr [1]) scenario_state
        = Some (TBX_ERROR, scenario_state\<lparr>asserts := [585]\<rparr>)
   \<and> TbxMbClientWriteHoldingRegs (Ptr 0) 5 100 126 (Ptr [1]) scenario_state
        = Some (TBX_ERROR, scenario_state\<lparr>asserts := [629]\<rparr>)"
  using c4_invalid_parameters [of "Ptr 0" "Ptr [1]" 5 2001 100 scenario_state "Ptr [7]" 126
      scenario_env "Ptr [1]"]
  by (simp add: scenario_defs)

text \<open>
  C10. With valid parameters and a channel context of the client type,
  \<open>TbxMbClientReadCoils\<close>, \<open>TbxMbClientReadInputs\<close>, \<open>TbxMbClientReadHoldingRegs\<close>,
  \<open>TbxMbClientWriteCoils\<close> and \<open>TbxMbClientWriteHoldingRegs\<close> return \<open>TBX_ERROR\<close> and
  leave the state as it is, so no call is made to the transport; the first two write
  \<open>TBX_OFF\<close> and the third writes 0 to element 0 of the caller's array.
\<close>

theorem c10_stubs:
  assumes "clients s a = Some ctx" and "type ctx = TBX_MB_CLIENT_CONTEXT_TYPE"
    and "node \<le> TBX_MB_TP_NODE_ADDR_MAX"
  shows "(1 \<le> num16 \<and> num16 \<le> 2000 \<and> unat num16 \<le> length coils \<longrightarrow>
            TbxMbClientReadCoils (Ptr a) node addr num16 (Ptr coils) s
              = Some (TBX_ERROR, Ptr (coils[0 := TBX_OFF]), s)
          \<and> TbxMbClientReadInputs (Ptr a) node addr num16 (Ptr coils) s
              = Some (TBX_ERROR, Ptr (coils[0 := TBX_OFF]), s))
       \<and> (1 \<le> num8 \<and> num8 \<le> 125 \<and> unat num8 \<le> length regs \<longrightarrow>
            TbxMbClientReadHoldingRegs (Ptr a) node addr num8 (Ptr regs) s
              = Some (TBX_ERROR, Ptr (regs[0 := 0]), s))
       \<and> (1 \<le> num16 \<and> num16 \<le> 1968 \<and> unat num16 \<le> length coils \<longrightarrow>
            TbxMbClientWriteCoils (Ptr a) node addr num16 (Ptr coils) s = Some (TBX_ERROR, s))
       \<and> (1 \<le> num8 \<and> num8 \<le> 123 \<and> unat num8 \<le> length bytes \<longrightarrow>
            TbxMbClientWriteHoldingRegs (Ptr a) node addr num8 (Ptr bytes) s
              = Some (TBX_ERROR, s))"
  using assms
  by (auto simp add: TbxMbClientReadCoils_def TbxMbClientReadInputs_def
      TbxMbClientReadHoldingRegs_def TbxMbClientWriteCoils_def
      TbxMbClientWriteHoldingRegs_def addr_of_def TBX_ASSERT_def array_store_def
      dest: word_ge1_nonempty)

theorem c10_stubs_witness:
  "clients scenario_state 0 = Some scenario_client
   \<and> type scenario_client = TBX_MB_CLIENT_CONTEXT_TYPE
   \<and> (5 :: 8 word) \<le> TBX_MB_TP_NODE_ADDR_MAX
   \<and> (1 :: 16 word) \<le> 3 \<and> (3 :: 16 word) \<le> 1968 \<and> unat (3 :: 16 word) \<le> length [1, 1, 1 :: 8 word]
   \<and> (1 :: 8 word) \<le> 2 \<and> (2 :: 8 word) \<le> 123 \<and> unat (2 :: 8 word) \<le> length [7, 8 :: 16 word]
   \<and> unat (2 :: 8 word) \<le> length [0, 7, 0, 8 :: 8 word]
   \<and> TbxMbClientReadCoils (Ptr 0) 5 100 3 (Ptr [1, 1, 1]) scenario_state
        = Some (TBX_ERROR, Ptr [TBX_OFF, 1, 1], scenario_state)
   \<and> TbxMbClientReadInputs (Ptr 0) 5 100 3 (Ptr [1, 1, 1]) scenario_state
        = Some (TBX_ERROR, Ptr [TBX_OFF, 1, 1], scenario_state)
   \<and> TbxMbClientReadHoldingRegs (Ptr 0) 5 100 2 (Ptr [7, 8]) scenario_state
        = Some (TBX_ERROR, Ptr [0, 8], scenario_state)
   \<and> TbxMbClientWriteCoils (Ptr 0) 5 100 3 (Ptr [1, 1, 1]) scenario_state
        = Some (TBX_ERROR, scenario_state)
   \<and> TbxMbClientWriteHoldingRegs (Ptr 0) 5 100 2 (Ptr [0, 7, 0, 8]) scenario_state
        = Some (TBX_ERROR, scenario_state)"
  using c10_stubs [of scenario_state 0 scenario_client 5 3 "[1, 1, 1]" 100 2 "[7, 8]"
      "[0, 7, 0, 8]"]
  by (simp add: scenario_defs TBX_MB_TP_NODE_ADDR_MAX_def)

subsection \<open>Channel lifecycle\<close>

text \<open>
  C6. \<open>TbxMbClientCreate\<close> returns \<open>NULL\<close> for a null transport, without a call to the
  pool. For a transport it asks the pool for a block once when that succeeds. When the
  first allocation fails it grows the pool by one block of the size of a channel
  context and allocates once more, and no further: a block from the second allocation
  becomes the channel, and a second failure triggers the assertion of line 93 and the
  result is \<open>NULL\<close>.
\<close>

theorem c6_create:
  "TbxMbClientCreate env NULL rt td s = Some (NULL, s\<lparr>asserts := asserts s @ [76]\<rparr>)
   \<and> (memPoolAllocateRet1 env = Ptr a \<and> transports s t = Some tp \<longrightarrow>
         (\<exists>s'. TbxMbClientCreate env (Ptr t) rt td s = Some (Ptr a, s')
            \<and> calls s' = calls s @ [CallMemPoolAllocate Sizeof_tTbxMbClientCtx, CallSemCreate]
            \<and> clients s' a = Some
                 \<lparr>type = TBX_MB_CLIENT_CONTEXT_TYPE, instancePtr = NULL, pollFcn = NULL,
                  processFcn = Ptr Fcn_TbxMbClientProcessEvent, responseTimeout = rt,
                  turnaroundDelay = td, responseSem = semCreateRet env, tpCtx = Ptr t\<rparr>
            \<and> transports s' t = Some (tp\<lparr>channelCtx := Ptr a, isClient := TBX_TRUE\<rparr>)))
   \<and> (memPoolAllocateRet1 env = NULL \<and> memPoolAllocateRet2 env = Ptr a
         \<and> transports s t = Some tp \<longrightarrow>
         (\<exists>s'. TbxMbClientCreate env (Ptr t) rt td s = Some (Ptr a, s')
            \<and> calls s' = calls s @ [CallMemPoolAllocate Sizeof_tTbxMbClientCtx,
                                   CallMemPoolCreate 1 Sizeof_tTbxMbClientCtx,
                                   CallMemPoolAllocate Sizeof_tTbxMbClientCtx, CallSemCreate]
            \<and> clients s' a = Some
                 \<lparr>type = TBX_MB_CLIENT_CONTEXT_TYPE, instancePtr = NULL, pollFcn = NULL,
                  processFcn = Ptr Fcn_TbxMbClientProcessEvent, responseTimeout = rt,
                  turnaroundDelay = td, responseSem = semCreateRet env, tpCtx = Ptr t\<rparr>
            \<and> transports s' t = Some (tp\<lparr>channelCtx := Ptr a, isClient := TBX_TRUE\<rparr>)))
   \<and> (memPoolAllocateRet1 env = NULL \<and> memPoolAllocateRet2 env = NULL \<longrightarrow>
         TbxMbClientCreate env (Ptr t) rt td s
           = Some (NULL, s\<lparr>calls := calls s @ [CallMemPoolAllocate Sizeof_tTbxMbClientCtx,
                                                CallMemPoolCreate 1 Sizeof_tTbxMbClientCtx,
                                                CallMemPoolAllocate Sizeof_tTbxMbClientCtx],
                            asserts := asserts s @ [93]\<rparr>))"
  by (simp add: TbxMbClientCreate_def TBX_ASSERT_def call_def addr_of_def set_transport_def
      Let_def)

theorem c6_create_witness:
  "memPoolAllocateRet1 scenario_env = Ptr 0
   \<and> transports (scenario_state\<lparr>clients := Map.empty\<rparr>) 0 = Some scenario_transport
   \<and> TbxMbClientCreate scenario_env (Ptr 0) 1000 100 (scenario_state\<lparr>clients := Map.empty\<rparr>)
       = Some (Ptr 0, scenario_state\<lparr>calls := [CallMemPoolAllocate Sizeof_tTbxMbClientCtx,
                                                  CallSemCreate]\<rparr>)
   \<and> TbxMbClientCreate (scenario_env\<lparr>memPoolAllocateRet1 := NULL, memPoolAllocateRet2 := Ptr 0\<rparr>)
        (Ptr 0) 1000 100 (scenario_state\<lparr>clients := Map.empty\<rparr>)
       = Some (Ptr 0, scenario_state\<lparr>calls := [CallMemPoolAllocate Sizeof_tTbxMbClientCtx,
                                                  CallMemPoolCreate 1 Sizeof_tTbxMbClientCtx,
                                                  CallMemPoolAllocate Sizeof_tTbxMbClientCtx,
                                                  CallSemCreate]\<rparr>)
   \<and> TbxMbClientCreate (scenario_env\<lparr>memPoolAllocateRet1 := NULL\<rparr>)
        (Ptr 0) 1000 100 (scenario_state\<lparr>clients := Map.empty\<rparr>)
       = Some (NULL, scenario_state\<lparr>clients := Map.empty,
                       calls := [CallMemPoolAllocate Sizeof_tTbxMbClientCtx,
                                 CallMemPoolCreate 1 Sizeof_tTbxMbClientCtx,
                                 CallMemPoolAllocate Sizeof_tTbxMbClientCtx],
                       asserts := [93]\<rparr>)"
  using c6_create [of scenario_env 1000 100 "scenario_state\<lparr>clients := Map.empty\<rparr>" 0 0
      scenario_transport]
    c6_create [of "scenario_env\<lparr>memPoolAllocateRet1 := NULL, memPoolAllocateRet2 := Ptr 0\<rparr>"
      1000 100 "scenario_state\<lparr>clients := Map.empty\<rparr>" 0 0 scenario_transport]
    c6_create [of "scenario_env\<lparr>memPoolAllocateRet1 := NULL\<rparr>"
      1000 100 "scenario_state\<lparr>clients := Map.empty\<rparr>" 0 0 scenario_transport]
  by (simp add: scenario_defs TbxMbClientCreate_def TBX_ASSERT_def call_def addr_of_def
      set_transport_def Let_def)

text \<open>
  The states that \<open>TbxMbClientFree\<close> passes through for a channel that is linked to a
  transport, and the state it ends in.
\<close>

lemma Free_states_live:
  assumes "clients s a = Some ctx" and "tpCtx ctx = Ptr t" and "transports s t = Some tp"
  defines "s1 \<equiv> TBX_ASSERT 141 (type ctx = TBX_MB_CLIENT_CONTEXT_TYPE) s"
  defines "s2 \<equiv> call (CallSemFree (responseSem ctx)) s1"
  defines "s3 \<equiv> call CallCriticalSectionEnter (s2\<lparr>criticalNesting := criticalNesting s + 1\<rparr>)"
  defines "s4 \<equiv> s3\<lparr>transports := (transports s)(t \<mapsto> tp\<lparr>channelCtx := NULL\<rparr>)\<rparr>"
  defines "s5 \<equiv> s4\<lparr>clients := (clients s)(a \<mapsto> ctx\<lparr>tpCtx := NULL\<rparr>)\<rparr>"
  defines "s6 \<equiv> s4\<lparr>clients := (clients s)(a \<mapsto> ctx\<lparr>tpCtx := NULL, type := 0\<rparr>)\<rparr>"
  defines "s7 \<equiv> s4\<lparr>clients := (clients s)(a \<mapsto> ctx\<lparr>tpCtx := NULL, type := 0, pollFcn := NULL\<rparr>)\<rparr>"
  defines "s8 \<equiv> s4\<lparr>clients := (clients s)(a \<mapsto> ctx\<lparr>tpCtx := NULL, type := 0, pollFcn := NULL,
                     processFcn := NULL\<rparr>)\<rparr>"
  defines "s9 \<equiv> s4\<lparr>clients := (clients s)(a \<mapsto> ctx\<lparr>tpCtx := NULL, type := 0, pollFcn := NULL,
                     processFcn := NULL, responseSem := NULL\<rparr>)\<rparr>"
  defines "s10 \<equiv> call CallCriticalSectionExit (s9\<lparr>criticalNesting := criticalNesting s\<rparr>)"
  defines "s11 \<equiv> call (CallMemPoolRelease a) s10"
  shows "TbxMbClientFree_states (Ptr a) s = Some [s, s1, s2, s3, s4, s5, s6, s7, s8, s9, s10, s11]"
  using assms(1-3)
  unfolding s1_def s2_def s3_def s4_def s5_def s6_def s7_def s8_def s9_def s10_def s11_def
  by (simp add: TbxMbClientFree_states_def TbxMbClientFree_body_def TBX_ASSERT_def call_def
      addr_of_def set_client_def set_transport_def)

lemma Free_live:
  assumes "clients s a = Some ctx" and "tpCtx ctx = Ptr t" and "transports s t = Some tp"
  shows "TbxMbClientFree (Ptr a) s =
    Some (s\<lparr>clients := (clients s)(a \<mapsto> ctx\<lparr>tpCtx := NULL, type := 0, pollFcn := NULL,
                                            processFcn := NULL, responseSem := NULL\<rparr>),
             transports := (transports s)(t \<mapsto> tp\<lparr>channelCtx := NULL\<rparr>),
             calls := calls s @ [CallSemFree (responseSem ctx), CallCriticalSectionEnter,
                                 CallCriticalSectionExit, CallMemPoolRelease a],
             asserts := asserts s @
                          (if type ctx = TBX_MB_CLIENT_CONTEXT_TYPE then [] else [141])\<rparr>)"
  unfolding TbxMbClientFree_def Free_states_live [OF assms]
  by (simp add: TBX_ASSERT_def call_def)

text \<open>
  C7 as claimed says that the release of the response semaphore and the return of the
  block to the pool happen inside the critical section. For the concrete channel, the
  calls made and the nesting depth after each statement of \<open>TbxMbClientFree\<close> show
  otherwise: \<open>TbxMbOsalSemFree\<close> is called before the critical section is entered and
  \<open>TbxMemPoolRelease\<close> after it is left.
\<close>

theorem c7_free_as_claimed_counterexample:
  "map_option (map call_trace) (TbxMbClientFree_states (Ptr 0) scenario_state)
   = Some [([], 0),
           ([], 0),
           ([CallSemFree (Ptr 7)], 0),
           ([CallSemFree (Ptr 7), CallCriticalSectionEnter], 1),
           ([CallSemFree (Ptr 7), CallCriticalSectionEnter], 1),
           ([CallSemFree (Ptr 7), CallCriticalSectionEnter], 1),
           ([CallSemFree (Ptr 7), CallCriticalSectionEnter], 1),
           ([CallSemFree (Ptr 7), CallCriticalSectionEnter], 1),
           ([CallSemFree (Ptr 7), CallCriticalSectionEnter], 1),
           ([CallSemFree (Ptr 7), CallCriticalSectionEnter], 1),
           ([CallSemFree (Ptr 7), CallCriticalSectionEnter, CallCriticalSectionExit], 0),
           ([CallSemFree (Ptr 7), CallCriticalSectionEnter, CallCriticalSectionExit,
             CallMemPoolRelease 0], 0)]"
  by (simp add: scenario_defs TbxMbClientFree_states_def TbxMbClientFree_body_def
      TBX_ASSERT_def call_def addr_of_def set_client_def set_transport_def Let_def
      call_trace_def)

text \<open>
  C7, amended. For a non-null handle of a channel that is linked to a transport,
  \<open>TbxMbClientFree\<close> returns. It frees the response semaphore first, outside the critical
  section; inside one critical section it clears the transport's \<open>channelCtx\<close> and the
  channel's \<open>tpCtx\<close>, sets the context type to 0 and the poll, process and semaphore
  members to null, and makes no call; after leaving the critical section it returns the
  block to the pool. In every state outside the critical section the crosslink members
  refer to each other or are both null, and the contexts are all as before the call or
  all as after it.
\<close>

theorem c7_free:
  assumes "clients s a = Some ctx" and "tpCtx ctx = Ptr t" and "transports s t = Some tp"
    and "channelCtx tp = Ptr a"
  shows "\<exists>ss s'. TbxMbClientFree_states (Ptr a) s = Some ss
     \<and> TbxMbClientFree (Ptr a) s = Some s'
     \<and> calls s' = calls s @ [CallSemFree (responseSem ctx), CallCriticalSectionEnter,
                              CallCriticalSectionExit, CallMemPoolRelease a]
     \<and> clients s' = (clients s)(a \<mapsto> ctx\<lparr>tpCtx := NULL, type := 0, pollFcn := NULL,
                                        processFcn := NULL, responseSem := NULL\<rparr>)
     \<and> transports s' = (transports s)(t \<mapsto> tp\<lparr>channelCtx := NULL\<rparr>)
     \<and> criticalNesting s' = criticalNesting s
     \<and> (\<forall>x \<in> set ss. criticalNesting x = criticalNesting s \<longrightarrow>
           crosslinked a t x
           \<and> (clients x = clients s \<and> transports x = transports s
                \<or> clients x = clients s' \<and> transports x = transports s'))
     \<and> (\<forall>x \<in> set ss. criticalNesting x \<noteq> criticalNesting s \<longrightarrow>
           calls x = calls s @ [CallSemFree (responseSem ctx), CallCriticalSectionEnter])"
  unfolding TbxMbClientFree_def Free_states_live [OF assms(1-3)]
  using assms
  by (simp add: crosslinked_def TBX_ASSERT_def call_def)

theorem c7_free_witness:
  "clients scenario_state 0 = Some scenario_client
   \<and> tpCtx scenario_client = Ptr 0
   \<and> transports scenario_state 0 = Some scenario_transport
   \<and> channelCtx scenario_transport = Ptr 0
   \<and> (\<exists>ss s'. TbxMbClientFree_states (Ptr 0) scenario_state = Some ss
        \<and> TbxMbClientFree (Ptr 0) scenario_state = Some s'
        \<and> calls s' = [CallSemFree (Ptr 7), CallCriticalSectionEnter,
                       CallCriticalSectionExit, CallMemPoolRelease 0]
        \<and> clients s' 0 = Some (scenario_client\<lparr>tpCtx := NULL, type := 0, pollFcn := NULL,
                                                processFcn := NULL, responseSem := NULL\<rparr>)
        \<and> transports s' 0 = Some (scenario_transport\<lparr>channelCtx := NULL\<rparr>)
        \<and> (\<forall>x \<in> set ss. criticalNesting x = 0 \<longrightarrow> crosslinked 0 0 x))"
proof -
  have live: "clients scenario_state 0 = Some scenario_client"
    "tpCtx scenario_client = Ptr 0"
    "transports scenario_state 0 = Some scenario_transport"
    "channelCtx scenario_transport = Ptr 0"
    by (simp_all add: scenario_defs)
  from c7_free [OF live] obtain ss s' where
    "TbxMbClientFree_states (Ptr 0) scenario_state = Some ss"
    "TbxMbClientFree (Ptr 0) scenario_state = Some s'"
    "calls s' = calls scenario_state @ [CallSemFree (responseSem scenario_client),
       CallCriticalSectionEnter, CallCriticalSectionExit, CallMemPoolRelease 0]"
    "clients s' = (clients scenario_state)(0 \<mapsto> scenario_client\<lparr>tpCtx := NULL, type := 0,
       pollFcn := NULL, processFcn := NULL, responseSem := NULL\<rparr>)"
    "transports s' = (transports scenario_state)(0 \<mapsto> scenario_transport\<lparr>channelCtx := NULL\<rparr>)"
    "\<forall>x \<in> set ss. criticalNesting x = criticalNesting scenario_state \<longrightarrow> crosslinked 0 0 x"
    by blast
  moreover have "calls scenario_state = []" "responseSem scenario_client = Ptr 7"
    "criticalNesting scenario_state = 0"
    by (simp_all add: scenario_defs)
  ultimately show ?thesis
    using live by simp
qed

subsection \<open>Use of a handle after \<open>TbxMbClientFree\<close>\<close>

text \<open>
  C5 as claimed says that a use of the handle after \<open>TbxMbClientFree\<close> is rejected by the
  check of the context type, and that the event handler does not give the semaphore for a
  context whose type does not match. For the concrete channel: after
  \<open>TbxMbClientFree\<close>, the handler triggers the assertion of line 185 on a PDU-received
  event and goes on to call \<open>TbxMbOsalSemGive\<close> with the semaphore member of the context,
  which is null by then; for a context whose type does not match while its semaphore
  member is still set, the handler gives that semaphore; and
  \<open>TbxMbClientReadInputRegs\<close> with the freed handle is undefined, since it reads through
  the null \<open>tpCtx\<close>.
\<close>

theorem c5_stale_handle_counterexample:
  "map_option calls
     (TbxMbClientFree (Ptr 0) scenario_state \<bind>
        TbxMbClientProcessEvent
          (Ptr \<lparr>eventContext = Ptr 0, eventId = TBX_MB_EVENT_ID_PDU_RECEIVED\<rparr>))
   = Some [CallSemFree (Ptr 7), CallCriticalSectionEnter, CallCriticalSectionExit,
           CallMemPoolRelease 0, CallSemGive NULL TBX_FALSE]
   \<and> map_option asserts
     (TbxMbClientFree (Ptr 0) scenario_state \<bind>
        TbxMbClientProcessEvent
          (Ptr \<lparr>eventContext = Ptr 0, eventId = TBX_MB_EVENT_ID_PDU_RECEIVED\<rparr>))
     = Some [185]
   \<and> map_option calls
       (TbxMbClientProcessEvent
          (Ptr \<lparr>eventContext = Ptr 0, eventId = TBX_MB_EVENT_ID_PDU_RECEIVED\<rparr>)
          scenario_mistagged_state)
     = Some [CallSemGive (Ptr 7) TBX_FALSE]
   \<and> (TbxMbClientFree (Ptr 0) scenario_state \<bind>
        TbxMbClientReadInputRegs scenario_env (Ptr 0) 5 100 3 (Ptr [0, 0, 0])) = None"
proof -
  have live: "clients scenario_state 0 = Some scenario_client"
    "tpCtx scenario_client = Ptr 0"
    "transports scenario_state 0 = Some scenario_transport"
    by (simp_all add: scenario_defs)
  show ?thesis
    unfolding Free_live [OF live]
    by (simp add: scenario_defs scenario_mistagged_state_def TbxMbClientProcessEvent_def
        TbxMbClientReadInputRegs_def TBX_ASSERT_def call_def addr_of_def
        TBX_MB_CLIENT_CONTEXT_TYPE_def TBX_MB_TP_NODE_ADDR_MAX_def Let_def)
qed

text \<open>
  What the event handler and the public operations do with a handle whose context does
  not have the type of a client channel: each triggers its assertion on the context type
  and goes on.
\<close>

lemma mistagged_context_use:
  assumes "clients s' a = Some c" and "type c \<noteq> TBX_MB_CLIENT_CONTEXT_TYPE"
  shows "TbxMbClientProcessEvent
          (Ptr \<lparr>eventContext = Ptr a, eventId = TBX_MB_EVENT_ID_PDU_RECEIVED\<rparr>) s'
        = Some (s'\<lparr>calls := calls s' @ [CallSemGive (responseSem c) TBX_FALSE],
                   asserts := asserts s' @ [185]\<rparr>)"
    and "TbxMbClientProcessEvent
          (Ptr \<lparr>eventContext = Ptr a, eventId = TBX_MB_EVENT_ID_PDU_TRANSMITTED\<rparr>) s'
        = Some (s'\<lparr>asserts := asserts s' @ [185]\<rparr>)"
    and "node \<le> TBX_MB_TP_NODE_ADDR_MAX \<and> 1 \<le> num16 \<and> num16 \<le> 2000
          \<and> unat num16 \<le> length coils \<longrightarrow>
          TbxMbClientReadCoils (Ptr a) node addr num16 (Ptr coils) s'
            = Some (TBX_ERROR, Ptr (coils[0 := TBX_OFF]), s'\<lparr>asserts := asserts s' @ [340]\<rparr>)
          \<and> TbxMbClientReadInputs (Ptr a) node addr num16 (Ptr coils) s'
            = Some (TBX_ERROR, Ptr (coils[0 := TBX_OFF]), s'\<lparr>asserts := asserts s' @ [386]\<rparr>)"
    and "node \<le> TBX_MB_TP_NODE_ADDR_MAX \<and> 1 \<le> num16 \<and> num16 \<le> 1968
          \<and> unat num16 \<le> length coils \<longrightarrow>
          TbxMbClientWriteCoils (Ptr a) node addr num16 (Ptr coils) s'
            = Some (TBX_ERROR, s'\<lparr>asserts := asserts s' @ [595]\<rparr>)"
    and "node \<le> TBX_MB_TP_NODE_ADDR_MAX \<and> 1 \<le> num8 \<and> num8 \<le> 125
          \<and> unat num8 \<le> length regs \<longrightarrow>
          TbxMbClientReadHoldingRegs (Ptr a) node addr num8 (Ptr regs) s'
            = Some (TBX_ERROR, Ptr (regs[0 := 0]), s'\<lparr>asserts := asserts s' @ [551]\<rparr>)"
    and "node \<le> TBX_MB_TP_NODE_ADDR_MAX \<and> 1 \<le> num8 \<and> num8 \<le> 123
          \<and> unat num8 \<le> length bytes \<longrightarrow>
          TbxMbClientWriteHoldingRegs (Ptr a) node addr num8 (Ptr bytes) s'
            = Some (TBX_ERROR, s'\<lparr>asserts := asserts s' @ [639]\<rparr>)"
    and "tpCtx c = NULL \<and> node \<le> TBX_MB_TP_NODE_ADDR_MAX \<and> 1 \<le> num8 \<and> num8 \<le> 125 \<longrightarrow>
          TbxMbClientReadInputRegs env (Ptr a) node addr num8 (Ptr regs) s' = None"
  using assms
  by (auto simp add: TbxMbClientProcessEvent_def TbxMbClientReadInputRegs_def
      TbxMbClientReadCoils_def TbxMbClientReadInputs_def TbxMbClientWriteCoils_def
      TbxMbClientReadHoldingRegs_def TbxMbClientWriteHoldingRegs_def
      TBX_ASSERT_def call_def addr_of_def array_store_def Let_def
      dest: word_ge1_nonempty)

text \<open>
  C5, amended. \<open>TbxMbClientFree\<close> of a channel that is linked to a transport leaves, in
  the block of the context, type 0, which is not the type of a client channel, and null
  \<open>tpCtx\<close>, \<open>responseSem\<close>, \<open>processFcn\<close> and \<open>pollFcn\<close>. The type is checked by
  assertion only. In every later state in which the block still holds this context,
  that is, until the block is allocated and written again, a use of the freed handle
  triggers the assertion on the context type and goes on: the event handler makes no
  call for a PDU-transmitted event and calls the semaphore give with the null handle for
  a PDU-received event; each of the five unfinished operations, for every count of its
  own range, returns \<open>TBX_ERROR\<close> and makes no call; \<open>TbxMbClientReadInputRegs\<close>, for
  every count of its range, is undefined, since the context's \<open>tpCtx\<close> is null.
\<close>

theorem c5_stale_handle:
  assumes "clients s a = Some ctx" and "tpCtx ctx = Ptr t" and "transports s t = Some tp"
  shows "\<exists>s0 c. TbxMbClientFree (Ptr a) s = Some s0 \<and> clients s0 a = Some c
     \<and> type c = 0 \<and> type c \<noteq> TBX_MB_CLIENT_CONTEXT_TYPE \<and> tpCtx c = NULL
     \<and> responseSem c = NULL \<and> processFcn c = NULL \<and> pollFcn c = NULL
     \<and> (\<forall>s'. clients s' a = Some c \<longrightarrow>
          TbxMbClientProcessEvent
            (Ptr \<lparr>eventContext = Ptr a, eventId = TBX_MB_EVENT_ID_PDU_RECEIVED\<rparr>) s'
          = Some (s'\<lparr>calls := calls s' @ [CallSemGive NULL TBX_FALSE],
                     asserts := asserts s' @ [185]\<rparr>)
        \<and> TbxMbClientProcessEvent
            (Ptr \<lparr>eventContext = Ptr a, eventId = TBX_MB_EVENT_ID_PDU_TRANSMITTED\<rparr>) s'
          = Some (s'\<lparr>asserts := asserts s' @ [185]\<rparr>)
        \<and> (node \<le> TBX_MB_TP_NODE_ADDR_MAX \<and> 1 \<le> num16 \<and> num16 \<le> 2000
            \<and> unat num16 \<le> length coils \<longrightarrow>
            TbxMbClientReadCoils (Ptr a) node addr num16 (Ptr coils) s'
              = Some (TBX_ERROR, Ptr (coils[0 := TBX_OFF]),
                      s'\<lparr>asserts := asserts s' @ [340]\<rparr>)
            \<and> TbxMbClientReadInputs (Ptr a) node addr num16 (Ptr coils) s'
              = Some (TBX_ERROR, Ptr (coils[0 := TBX_OFF]),
                      s'\<lparr>asserts := asserts s' @ [386]\<rparr>))
        \<and> (node \<le> TBX_MB_TP_NODE_ADDR_MAX \<and> 1 \<le> num16 \<and> num16 \<le> 1968
            \<and> unat num16 \<le> length coils \<longrightarrow>
            TbxMbClientWriteCoils (Ptr a) node addr num16 (Ptr coils) s'
              = Some (TBX_ERROR, s'\<lparr>asserts := asserts s' @ [595]\<rparr>))
        \<and> (node \<le> TBX_MB_TP_NODE_ADDR_MAX \<and> 1 \<le> num8 \<and> num8 \<le> 125
            \<and> unat num8 \<le> length regs \<longrightarrow>
            TbxMbClientReadHoldingRegs (Ptr a) node addr num8 (Ptr regs) s'
              = Some (TBX_ERROR, Ptr (regs[0 := 0]), s'\<lparr>asserts := asserts s' @ [551]\<rparr>))
        \<and> (node \<le> TBX_MB_TP_NODE_ADDR_MAX \<and> 1 \<le> num8 \<and> num8 \<le> 123
            \<and> unat num8 \<le> length bytes \<longrightarrow>
            TbxMbClientWriteHoldingRegs (Ptr a) node addr num8 (Ptr bytes) s'
              = Some (TBX_ERROR, s'\<lparr>asserts := asserts s' @ [639]\<rparr>))
        \<and> (node \<le> TBX_MB_TP_NODE_ADDR_MAX \<and> 1 \<le> num8 \<and> num8 \<le> 125 \<longrightarrow>
            TbxMbClientReadInputRegs env (Ptr a) node addr num8 (Ptr regs) s' = None))"
proof -
  define c where "c = ctx\<lparr>tpCtx := NULL, type := 0, pollFcn := NULL, processFcn := NULL,
                          responseSem := NULL\<rparr>"
  have fields: "type c = 0" "tpCtx c = NULL" "responseSem c = NULL" "processFcn c = NULL"
    "pollFcn c = NULL"
    by (simp_all add: c_def)
  have tag: "type c \<noteq> TBX_MB_CLIENT_CONTEXT_TYPE"
    by (simp add: fields TBX_MB_CLIENT_CONTEXT_TYPE_def)
  obtain s0 where freed: "TbxMbClientFree (Ptr a) s = Some s0" "clients s0 a = Some c"
    unfolding Free_live [OF assms] c_def by simp
  have "TbxMbClientProcessEvent
            (Ptr \<lparr>eventContext = Ptr a, eventId = TBX_MB_EVENT_ID_PDU_RECEIVED\<rparr>) s'
          = Some (s'\<lparr>calls := calls s' @ [CallSemGive NULL TBX_FALSE],
                     asserts := asserts s' @ [185]\<rparr>)
        \<and> TbxMbClientProcessEvent
            (Ptr \<lparr>eventContext = Ptr a, eventId = TBX_MB_EVENT_ID_PDU_TRANSMITTED\<rparr>) s'
          = Some (s'\<lparr>asserts := asserts s' @ [185]\<rparr>)
        \<and> (node \<le> TBX_MB_TP_NODE_ADDR_MAX \<and> 1 \<le> num16 \<and> num16 \<le> 2000
            \<and> unat num16 \<le> length coils \<longrightarrow>
            TbxMbClientReadCoils (Ptr a) node addr num16 (Ptr coils) s'
              = Some (TBX_ERROR, Ptr (coils[0 := TBX_OFF]),
                      s'\<lparr>asserts := asserts s' @ [340]\<rparr>)
            \<and> TbxMbClientReadInputs (Ptr a) node addr num16 (Ptr coils) s'
              = Some (TBX_ERROR, Ptr (coils[0 := TBX_OFF]),
                      s'\<lparr>asserts := asserts s' @ [386]\<rparr>))
        \<and> (node \<le> TBX_MB_TP_NODE_ADDR_MAX \<and> 1 \<le> num16 \<and> num16 \<le> 1968
            \<and> unat num16 \<le> length coils \<longrightarrow>
            TbxMbClientWriteCoils (Ptr a) node addr num16 (Ptr coils) s'
              = Some (TBX_ERROR, s'\<lparr>asserts := asserts s' @ [595]\<rparr>))
        \<and> (node \<le> TBX_MB_TP_NODE_ADDR_MAX \<and> 1 \<le> num8 \<and> num8 \<le> 125
            \<and> unat num8 \<le> length regs \<longrightarrow>
            TbxMbClientReadHoldingRegs (Ptr a) node addr num8 (Ptr regs) s'
              = Some (TBX_ERROR, Ptr (regs[0 := 0]), s'\<lparr>asserts := asserts s' @ [551]\<rparr>))
        \<and> (node \<le> TBX_MB_TP_NODE_ADDR_MAX \<and> 1 \<le> num8 \<and> num8 \<le> 123
            \<and> unat num8 \<le> length bytes \<longrightarrow>
            TbxMbClientWriteHoldingRegs (Ptr a) node addr num8 (Ptr bytes) s'
              = Some (TBX_ERROR, s'\<lparr>asserts := asserts s' @ [639]\<rparr>))
        \<and> (node \<le> TBX_MB_TP_NODE_ADDR_MAX \<and> 1 \<le> num8 \<and> num8 \<le> 125 \<longrightarrow>
            TbxMbClientReadInputRegs env (Ptr a) node addr num8 (Ptr regs) s' = None)"
    if "clients s' a = Some c" for s'
    using mistagged_context_use [OF that tag] fields
    by simp
  with freed fields tag show ?thesis
    by blast
qed


theorem c5_stale_handle_witness:
  "clients scenario_state 0 = Some scenario_client
   \<and> tpCtx scenario_client = Ptr 0
   \<and> transports scenario_state 0 = Some scenario_transport
   \<and> (5 :: 8 word) \<le> TBX_MB_TP_NODE_ADDR_MAX
   \<and> (1 :: 16 word) \<le> 2000 \<and> (2000 :: 16 word) \<le> 2000
   \<and> unat (2000 :: 16 word) \<le> length (replicate 2000 (1 :: 8 word))
   \<and> (1 :: 16 word) \<le> 1968 \<and> (1968 :: 16 word) \<le> 1968
   \<and> unat (1968 :: 16 word) \<le> length (replicate 2000 (1 :: 8 word))
   \<and> (1 :: 8 word) \<le> 125 \<and> (125 :: 8 word) \<le> 125
   \<and> unat (125 :: 8 word) \<le> length (replicate 125 (7 :: 16 word))
   \<and> (1 :: 8 word) \<le> 123 \<and> (123 :: 8 word) \<le> 123
   \<and> unat (123 :: 8 word) \<le> length (replicate 246 (0 :: 8 word))
   \<and> (\<exists>s0 c. TbxMbClientFree (Ptr 0) scenario_state = Some s0 \<and> clients s0 0 = Some c
        \<and> type c \<noteq> TBX_MB_CLIENT_CONTEXT_TYPE \<and> tpCtx c = NULL \<and> responseSem c = NULL
        \<and> TbxMbClientProcessEvent
             (Ptr \<lparr>eventContext = Ptr 0, eventId = TBX_MB_EVENT_ID_PDU_RECEIVED\<rparr>) s0
           = Some (s0\<lparr>calls := calls s0 @ [CallSemGive NULL TBX_FALSE],
                      asserts := asserts s0 @ [185]\<rparr>)
        \<and> TbxMbClientReadCoils (Ptr 0) 5 100 2000 (Ptr (replicate 2000 1)) s0
           = Some (TBX_ERROR, Ptr ((replicate 2000 1)[0 := TBX_OFF]),
                   s0\<lparr>asserts := asserts s0 @ [340]\<rparr>)
        \<and> TbxMbClientReadInputs (Ptr 0) 5 100 2000 (Ptr (replicate 2000 1)) s0
           = Some (TBX_ERROR, Ptr ((replicate 2000 1)[0 := TBX_OFF]),
                   s0\<lparr>asserts := asserts s0 @ [386]\<rparr>)
        \<and> TbxMbClientWriteCoils (Ptr 0) 5 100 1968 (Ptr (replicate 2000 1)) s0
           = Some (TBX_ERROR, s0\<lparr>asserts := asserts s0 @ [595]\<rparr>)
        \<and> TbxMbClientReadHoldingRegs (Ptr 0) 5 100 125 (Ptr (replicate 125 7)) s0
           = Some (TBX_ERROR, Ptr ((replicate 125 7)[0 := 0]),
                   s0\<lparr>asserts := asserts s0 @ [551]\<rparr>)
        \<and> TbxMbClientWriteHoldingRegs (Ptr 0) 5 100 123 (Ptr (replicate 246 0)) s0
           = Some (TBX_ERROR, s0\<lparr>asserts := asserts s0 @ [639]\<rparr>)
        \<and> TbxMbClientReadInputRegs scenario_env (Ptr 0) 5 100 125 (Ptr (replicate 125 7)) s0
           = None)"
proof -
  have live: "clients scenario_state 0 = Some scenario_client"
    "tpCtx scenario_client = Ptr 0"
    "transports scenario_state 0 = Some scenario_transport"
    by (simp_all add: scenario_defs)
  have args: "(5 :: 8 word) \<le> TBX_MB_TP_NODE_ADDR_MAX"
    "(1 :: 16 word) \<le> 2000" "(2000 :: 16 word) \<le> 2000"
    "unat (2000 :: 16 word) \<le> length (replicate 2000 (1 :: 8 word))"
    "(1 :: 16 word) \<le> 1968" "(1968 :: 16 word) \<le> 1968"
    "unat (1968 :: 16 word) \<le> length (replicate 2000 (1 :: 8 word))"
    "(1 :: 8 word) \<le> 125" "(125 :: 8 word) \<le> 125"
    "unat (125 :: 8 word) \<le> length (replicate 125 (7 :: 16 word))"
    "(1 :: 8 word) \<le> 123" "(123 :: 8 word) \<le> 123"
    "unat (123 :: 8 word) \<le> length (replicate 246 (0 :: 8 word))"
    by (simp_all add: TBX_MB_TP_NODE_ADDR_MAX_def)
  from c5_stale_handle [OF live, of 5 2000 "replicate 2000 1" 100 125 "replicate 125 7"
      "replicate 246 0" scenario_env]
  obtain s0 c where freed: "TbxMbClientFree (Ptr 0) scenario_state = Some s0"
      "clients s0 0 = Some c"
      "type c \<noteq> TBX_MB_CLIENT_CONTEXT_TYPE" "tpCtx c = NULL" "responseSem c = NULL"
    and reads: "TbxMbClientProcessEvent
           (Ptr \<lparr>eventContext = Ptr 0, eventId = TBX_MB_EVENT_ID_PDU_RECEIVED\<rparr>) s0
         = Some (s0\<lparr>calls := calls s0 @ [CallSemGive NULL TBX_FALSE],
                    asserts := asserts s0 @ [185]\<rparr>)"
      "TbxMbClientReadCoils (Ptr 0) 5 100 2000 (Ptr (replicate 2000 1)) s0
         = Some (TBX_ERROR, Ptr ((replicate 2000 1)[0 := TBX_OFF]),
                 s0\<lparr>asserts := asserts s0 @ [340]\<rparr>)"
      "TbxMbClientReadInputs (Ptr 0) 5 100 2000 (Ptr (replicate 2000 1)) s0
         = Some (TBX_ERROR, Ptr ((replicate 2000 1)[0 := TBX_OFF]),
                 s0\<lparr>asserts := asserts s0 @ [386]\<rparr>)"
      "TbxMbClientReadHoldingRegs (Ptr 0) 5 100 125 (Ptr (replicate 125 7)) s0
         = Some (TBX_ERROR, Ptr ((replicate 125 7)[0 := 0]),
                 s0\<lparr>asserts := asserts s0 @ [551]\<rparr>)"
      "TbxMbClientReadInputRegs scenario_env (Ptr 0) 5 100 125 (Ptr (replicate 125 7)) s0
         = None"
    using args by blast
  from c5_stale_handle [OF live, of 5 1968 "replicate 2000 1" 100 123 "replicate 125 7"
      "replicate 246 0" scenario_env]
  obtain s1 c1 where freed1: "TbxMbClientFree (Ptr 0) scenario_state = Some s1"
      "clients s1 0 = Some c1"
    and writes1: "\<forall>s'. clients s' 0 = Some c1 \<longrightarrow>
        TbxMbClientWriteCoils (Ptr 0) 5 100 1968 (Ptr (replicate 2000 1)) s'
          = Some (TBX_ERROR, s'\<lparr>asserts := asserts s' @ [595]\<rparr>)
        \<and> TbxMbClientWriteHoldingRegs (Ptr 0) 5 100 123 (Ptr (replicate 246 0)) s'
          = Some (TBX_ERROR, s'\<lparr>asserts := asserts s' @ [639]\<rparr>)"
    using args by blast
  from freed(1) freed1(1) have "s1 = s0"
    by simp
  with freed1(2) writes1
  have writes: "TbxMbClientWriteCoils (Ptr 0) 5 100 1968 (Ptr (replicate 2000 1)) s0
          = Some (TBX_ERROR, s0\<lparr>asserts := asserts s0 @ [595]\<rparr>)"
    "TbxMbClientWriteHoldingRegs (Ptr 0) 5 100 123 (Ptr (replicate 246 0)) s0
          = Some (TBX_ERROR, s0\<lparr>asserts := asserts s0 @ [639]\<rparr>)"
    by simp_all
  from freed reads writes have "\<exists>s0 c. TbxMbClientFree (Ptr 0) scenario_state = Some s0
        \<and> clients s0 0 = Some c
        \<and> type c \<noteq> TBX_MB_CLIENT_CONTEXT_TYPE \<and> tpCtx c = NULL \<and> responseSem c = NULL
        \<and> TbxMbClientProcessEvent
             (Ptr \<lparr>eventContext = Ptr 0, eventId = TBX_MB_EVENT_ID_PDU_RECEIVED\<rparr>) s0
           = Some (s0\<lparr>calls := calls s0 @ [CallSemGive NULL TBX_FALSE],
                      asserts := asserts s0 @ [185]\<rparr>)
        \<and> TbxMbClientReadCoils (Ptr 0) 5 100 2000 (Ptr (replicate 2000 1)) s0
           = Some (TBX_ERROR, Ptr ((replicate 2000 1)[0 := TBX_OFF]),
                   s0\<lparr>asserts := asserts s0 @ [340]\<rparr>)
        \<and> TbxMbClientReadInputs (Ptr 0) 5 100 2000 (Ptr (replicate 2000 1)) s0
           = Some (TBX_ERROR, Ptr ((replicate 2000 1)[0 := TBX_OFF]),
                   s0\<lparr>asserts := asserts s0 @ [386]\<rparr>)
        \<and> TbxMbClientWriteCoils (Ptr 0) 5 100 1968 (Ptr (replicate 2000 1)) s0
           = Some (TBX_ERROR, s0\<lparr>asserts := asserts s0 @ [595]\<rparr>)
        \<and> TbxMbClientReadHoldingRegs (Ptr 0) 5 100 125 (Ptr (replicate 125 7)) s0
           = Some (TBX_ERROR, Ptr ((replicate 125 7)[0 := 0]),
                   s0\<lparr>asserts := asserts s0 @ [551]\<rparr>)
        \<and> TbxMbClientWriteHoldingRegs (Ptr 0) 5 100 123 (Ptr (replicate 246 0)) s0
           = Some (TBX_ERROR, s0\<lparr>asserts := asserts s0 @ [639]\<rparr>)
        \<and> TbxMbClientReadInputRegs scenario_env (Ptr 0) 5 100 125 (Ptr (replicate 125 7)) s0
           = None"
    by blast
  with live args show ?thesis
    by (intro conjI)
qed

subsection \<open>Reading input registers\<close>

text \<open>Facts about the bytes of the request and of the response.\<close>

lemma be16_value:
  fixes hi lo :: "8 word"
  shows "unat (push_bit 8 (ucast hi :: 16 word) OR ucast lo) = 256 * unat hi + unat lo"
proof -
  have hi: "unat hi < 256" and lo: "unat lo < 256"
    using unsigned_less [of hi, where ?'a = nat] unsigned_less [of lo, where ?'a = nat]
    by simp_all
  have "push_bit 8 (ucast hi :: 16 word) OR ucast lo = push_bit 8 (ucast hi) + ucast lo"
    by (rule disjunctive_add [symmetric]) (auto simp add: bit_simps dest: bit_imp_le_length)
  moreover have "unat (push_bit 8 (ucast hi :: 16 word)) = 256 * unat hi"
    using hi by (simp add: push_bit_eq_mult unat_word_ariths unsigned_ucast_eq take_bit_eq_mod)
  moreover have "unat (ucast lo :: 16 word) = unat lo"
    using lo by (simp add: unsigned_ucast_eq take_bit_eq_mod)
  ultimately show ?thesis
    using hi lo by (simp add: unat_word_ariths)
qed

lemma exception_bit: "(c AND TBX_MB_FC_EXCEPTION_MASK = 0) = (\<not> bit (c :: 8 word) 7)"
proof -
  have "TBX_MB_FC_EXCEPTION_MASK = 2 ^ 7"
    by (simp add: TBX_MB_FC_EXCEPTION_MASK_def)
  then have "(c AND TBX_MB_FC_EXCEPTION_MASK = 0) = (c AND 2 ^ 7 = 0)"
    by (rule arg_cong)
  also have "\<dots> = (\<not> bit c 7)"
    by (rule and_exp_eq_0_iff_not_bit)
  finally show ?thesis .
qed

lemma count_bytes:
  fixes num :: "8 word"
  shows "ucast (drop_bit 8 (ucast num :: 16 word)) = (0 :: 8 word)"
    and "ucast (ucast num :: 16 word) = num"
  by (rule bit_word_eqI; auto simp add: bit_simps dest: bit_imp_le_length)+

lemma unat_word8_Suc:
  fixes idx num :: "8 word"
  assumes "idx < num"
  shows "unat (idx + 1) = Suc (unat idx)"
proof -
  from assms have "unat idx < unat num"
    by (simp add: word_less_nat_alt)
  moreover have "unat num < 256"
    using unsigned_less [of num, where ?'a = nat] by simp
  ultimately show ?thesis
    by (simp add: unat_word_ariths)
qed

text \<open>
  The loop that unpacks the registers returns when the response data and the caller's
  array are long enough; it writes the elements from \<open>idx\<close> up to \<open>num\<close> and leaves the
  others as they are.
\<close>

lemma ReadInputRegs_for_spec:
  assumes "2 * unat num + 1 \<le> length data" and "unat num \<le> length regs"
  shows "\<exists>out. TbxMbClientReadInputRegs_for data num idx regs = Some out
     \<and> length out = length regs
     \<and> (\<forall>i. i < unat idx \<or> unat num \<le> i \<longrightarrow> out ! i = regs ! i)
     \<and> (\<forall>i. unat idx \<le> i \<and> i < unat num \<longrightarrow>
           TbxMbClientExtractUInt16BE data (1 + i * 2) = Some (out ! i))"
  using assms
proof (induction data num idx regs rule: TbxMbClientReadInputRegs_for.induct)
  case (1 data num idx inputRegs)
  show ?case
  proof (cases "idx < num")
    case False
    then have "unat num \<le> unat idx"
      by (simp add: word_less_nat_alt)
    with False show ?thesis
      by (subst TbxMbClientReadInputRegs_for.simps) auto
  next
    case True
    then have lt: "unat idx < unat num"
      by (simp add: word_less_nat_alt)
    have suc: "unat (idx + 1) = Suc (unat idx)"
      using True by (rule unat_word8_Suc)
    define v where "v = push_bit 8 (ucast (data ! (1 + unat idx * 2)) :: 16 word)
                          OR ucast (data ! (1 + unat idx * 2 + 1))"
    have ext: "TbxMbClientExtractUInt16BE data (1 + unat idx * 2) = Some v"
      using lt "1.prems"(1) by (simp add: TbxMbClientExtractUInt16BE_def v_def)
    have st: "array_store inputRegs (unat idx) v = Some (inputRegs[unat idx := v])"
      using lt "1.prems"(2) by (simp add: array_store_def)
    from "1.IH" [OF True ext st "1.prems"(1)] "1.prems"(2)
    obtain out where out: "TbxMbClientReadInputRegs_for data num (idx + 1)
          (inputRegs[unat idx := v]) = Some out"
      "length out = length inputRegs"
      "\<forall>i. i < Suc (unat idx) \<or> unat num \<le> i \<longrightarrow> out ! i = inputRegs[unat idx := v] ! i"
      "\<forall>i. Suc (unat idx) \<le> i \<and> i < unat num \<longrightarrow>
           TbxMbClientExtractUInt16BE data (1 + i * 2) = Some (out ! i)"
      unfolding suc by auto
    have "TbxMbClientReadInputRegs_for data num idx inputRegs = Some out"
      using True ext st out(1) by (subst TbxMbClientReadInputRegs_for.simps) simp
    moreover have "out ! i = inputRegs ! i" if "i < unat idx \<or> unat num \<le> i" for i
      using that out(3) lt by auto
    moreover have "TbxMbClientExtractUInt16BE data (1 + i * 2) = Some (out ! i)"
      if "unat idx \<le> i \<and> i < unat num" for i
    proof (cases "i = unat idx")
      case True
      with out(3) lt "1.prems"(2) have "out ! i = v"
        by simp
      with ext True show ?thesis
        by simp
    next
      case False
      with that out(4) show ?thesis
        by simp
    qed
    ultimately show ?thesis
      using out(2) by blast
  qed
qed

text \<open>
  \<open>TbxMbClientReadInputRegs\<close> on a channel that is linked to a transport, path by path:
  a unicast exchange that delivers a response packet, one whose response packet cannot
  be accessed, and a call that does not look at a response (broadcast, failed transmit
  or timeout).
\<close>

lemma ReadInputRegs_unicast_response:
  fixes addr :: "16 word" and regs :: "16 word list"
  assumes live: "clients s a = Some ctx" "type ctx = TBX_MB_CLIENT_CONTEXT_TYPE"
      "tpCtx ctx = Ptr t" "transports s t = Some tp"
    and fcns: "getTxPacketFcn tp" "transmitFcn tp" "getRxPacketFcn tp" "receptionDoneFcn tp"
    and params: "node \<le> TBX_MB_TP_NODE_ADDR_MAX" "1 \<le> num" "num \<le> 125"
    and tx: "getTxPacketRet env" "4 \<le> length (pduData (txPacket tp))"
    and unicast: "node \<noteq> TBX_MB_TP_NODE_ADDR_BROADCAST"
    and transceived: "transmitRet env = TBX_OK" "semTakeRet env \<noteq> TBX_FALSE"
    and rx: "getRxPacketRet env = Ptr rx" "0 < length (pduData rx)"
  defines "request \<equiv> (txPacket tp)
       \<lparr>packetNode := node, pduCode := TBX_MB_FC04_READ_INPUT_REGISTERS, dataLen := 4,
        pduData := (pduData (txPacket tp))
                     [0 := ucast (drop_bit 8 addr), 1 := ucast addr, 2 := 0, 3 := num]\<rparr>"
  defines "s' \<equiv> s\<lparr>transports := (transports s)(t \<mapsto> tp\<lparr>txPacket := request\<rparr>),
                   calls := calls s @ [CallGetTxPacket t, CallTransmit t request,
                     CallSemTake (responseSem ctx) (responseTimeout ctx),
                     CallGetRxPacket t, CallReceptionDone t]\<rparr>"
  shows "TbxMbClientReadInputRegs env (Ptr a) node addr num (Ptr regs) s =
     (if packetNode rx = node \<and> \<not> bit (pduCode rx) 7
         \<and> unat (pduData rx ! 0) = unat num * 2
         \<and> unat (dataLen rx) = unat (pduData rx ! 0) + 1
      then TbxMbClientReadInputRegs_for (pduData rx) num 0 regs \<bind>
             (\<lambda>out. Some (TBX_OK, Ptr out, s'))
      else Some (TBX_ERROR, Ptr regs, s'))"
  using assms(1-18) unfolding s'_def request_def exception_bit [symmetric]
  by (simp add: TbxMbClientReadInputRegs_def TbxMbClientTransceive_def addr_of_def
      present_def set_transport_def call_def TBX_ASSERT_def Let_def
      TbxMbClientStoreUInt16BE_def array_load_def count_bytes)

lemma ReadInputRegs_unicast_no_packet:
  fixes addr :: "16 word" and regs :: "16 word list"
  assumes live: "clients s a = Some ctx" "type ctx = TBX_MB_CLIENT_CONTEXT_TYPE"
      "tpCtx ctx = Ptr t" "transports s t = Some tp"
    and fcns: "getTxPacketFcn tp" "transmitFcn tp" "getRxPacketFcn tp" "receptionDoneFcn tp"
    and params: "node \<le> TBX_MB_TP_NODE_ADDR_MAX" "1 \<le> num" "num \<le> 125"
    and tx: "getTxPacketRet env" "4 \<le> length (pduData (txPacket tp))"
    and unicast: "node \<noteq> TBX_MB_TP_NODE_ADDR_BROADCAST"
    and transceived: "transmitRet env = TBX_OK" "semTakeRet env \<noteq> TBX_FALSE"
    and rx: "getRxPacketRet env = NULL"
  defines "request \<equiv> (txPacket tp)
       \<lparr>packetNode := node, pduCode := TBX_MB_FC04_READ_INPUT_REGISTERS, dataLen := 4,
        pduData := (pduData (txPacket tp))
                     [0 := ucast (drop_bit 8 addr), 1 := ucast addr, 2 := 0, 3 := num]\<rparr>"
  shows "TbxMbClientReadInputRegs env (Ptr a) node addr num (Ptr regs) s =
     Some (TBX_ERROR, Ptr regs,
       s\<lparr>transports := (transports s)(t \<mapsto> tp\<lparr>txPacket := request\<rparr>),
         calls := calls s @ [CallGetTxPacket t, CallTransmit t request,
                     CallSemTake (responseSem ctx) (responseTimeout ctx),
                     CallGetRxPacket t, CallReceptionDone t],
         asserts := asserts s @ [469]\<rparr>)"
  using assms(1-17) unfolding request_def
  by (simp add: TbxMbClientReadInputRegs_def TbxMbClientTransceive_def addr_of_def
      present_def set_transport_def call_def TBX_ASSERT_def Let_def
      TbxMbClientStoreUInt16BE_def count_bytes)

lemma ReadInputRegs_no_response:
  fixes addr :: "16 word" and regs :: "16 word list"
  assumes live: "clients s a = Some ctx" "type ctx = TBX_MB_CLIENT_CONTEXT_TYPE"
      "tpCtx ctx = Ptr t" "transports s t = Some tp"
    and fcns: "getTxPacketFcn tp" "transmitFcn tp"
    and params: "node \<le> TBX_MB_TP_NODE_ADDR_MAX" "1 \<le> num" "num \<le> 125"
    and tx: "getTxPacketRet env" "4 \<le> length (pduData (txPacket tp))"
    and none: "node = TBX_MB_TP_NODE_ADDR_BROADCAST \<or> transmitRet env \<noteq> TBX_OK
               \<or> semTakeRet env = TBX_FALSE"
  defines "request \<equiv> (txPacket tp)
       \<lparr>packetNode := node, pduCode := TBX_MB_FC04_READ_INPUT_REGISTERS, dataLen := 4,
        pduData := (pduData (txPacket tp))
                     [0 := ucast (drop_bit 8 addr), 1 := ucast addr, 2 := 0, 3 := num]\<rparr>"
  shows "TbxMbClientReadInputRegs env (Ptr a) node addr num (Ptr regs) s =
     Some (if transmitRet env \<noteq> TBX_OK then transmitRet env
           else if semTakeRet env = TBX_FALSE \<and> node \<noteq> TBX_MB_TP_NODE_ADDR_BROADCAST
           then TBX_ERROR else TBX_OK,
       Ptr regs,
       s\<lparr>transports := (transports s)(t \<mapsto> tp\<lparr>txPacket := request\<rparr>),
         calls := calls s @ CallGetTxPacket t # CallTransmit t request #
           (if transmitRet env = TBX_OK
            then [CallSemTake (responseSem ctx)
                    (if node = TBX_MB_TP_NODE_ADDR_BROADCAST then turnaroundDelay ctx
                     else responseTimeout ctx)]
            else [])\<rparr>)"
  using assms(1-12) unfolding request_def
  by (auto simp add: TbxMbClientReadInputRegs_def TbxMbClientTransceive_def addr_of_def
      present_def set_transport_def call_def TBX_ASSERT_def Let_def
      TbxMbClientStoreUInt16BE_def count_bytes)

text \<open>
  C2. A call of \<open>TbxMbClientReadInputRegs\<close> with a linked client channel, a node address
  up to \<open>TBX_MB_TP_NODE_ADDR_MAX\<close>, a count from 1 to 125, an array of at least that
  many elements and access to the request buffer returns. The request that it hands to
  the transport has the node address, function code 4, data length 4 and the data bytes
  high and low byte of the start address, then high and low byte of the count. When
  the request is unicast, the exchange succeeds and the response packet is accessible,
  the result is \<open>TBX_OK\<close> exactly if the response's node is the request's node, bit 7 of
  its code is clear, its byte count is twice the count and its data length is the byte
  count plus one; then the first \<open>num\<close> elements of the array are the big-endian 16-bit
  values of the response and the other elements are unchanged; otherwise the result is
  \<open>TBX_ERROR\<close> and the array is unchanged. The witness is the spec's scenario: node 5,
  address 100, count 3, request bytes 0x00 0x64 0x00 0x03, and the values 10, 11, 12.
\<close>

theorem c2_read_input_regs:
  fixes addr :: "16 word" and regs :: "16 word list"
  assumes live: "clients s a = Some ctx" "type ctx = TBX_MB_CLIENT_CONTEXT_TYPE"
      "tpCtx ctx = Ptr t" "transports s t = Some tp"
    and fcns: "getTxPacketFcn tp" "transmitFcn tp" "getRxPacketFcn tp" "receptionDoneFcn tp"
    and params: "node \<le> TBX_MB_TP_NODE_ADDR_MAX" "1 \<le> num" "num \<le> 125"
    and tx: "getTxPacketRet env" "4 \<le> length (pduData (txPacket tp))"
    and sizes: "unat num \<le> length regs"
      "\<forall>rx. getRxPacketRet env = Ptr rx \<longrightarrow> 2 * unat num + 1 \<le> length (pduData rx)"
  shows "\<exists>result out s' req more.
      TbxMbClientReadInputRegs env (Ptr a) node addr num (Ptr regs) s
        = Some (result, Ptr out, s')
    \<and> calls s' = calls s @ CallGetTxPacket t # CallTransmit t req # more
    \<and> packetNode req = node \<and> pduCode req = TBX_MB_FC04_READ_INPUT_REGISTERS
    \<and> dataLen req = 4
    \<and> take 4 (pduData req) = [ucast (drop_bit 8 addr), ucast addr, 0, num]
    \<and> map unat (take 4 (pduData req)) = [unat addr div 256, unat addr mod 256, 0, unat num]
    \<and> (\<forall>rx. node \<noteq> TBX_MB_TP_NODE_ADDR_BROADCAST \<and> transmitRet env = TBX_OK
            \<and> semTakeRet env \<noteq> TBX_FALSE \<and> getRxPacketRet env = Ptr rx \<longrightarrow>
          (if packetNode rx = node \<and> \<not> bit (pduCode rx) 7
              \<and> unat (pduData rx ! 0) = unat num * 2
              \<and> unat (dataLen rx) = unat (pduData rx ! 0) + 1
           then result = TBX_OK \<and> length out = length regs
              \<and> (\<forall>i < unat num. unat (out ! i)
                     = 256 * unat (pduData rx ! (1 + 2 * i)) + unat (pduData rx ! (2 + 2 * i)))
              \<and> (\<forall>i \<ge> unat num. out ! i = regs ! i)
           else result = TBX_ERROR \<and> out = regs))"
proof -
  define req where "req = (txPacket tp)
       \<lparr>packetNode := node, pduCode := TBX_MB_FC04_READ_INPUT_REGISTERS, dataLen := 4,
        pduData := (pduData (txPacket tp))
                     [0 := ucast (drop_bit 8 addr), 1 := ucast addr, 2 := 0, 3 := num]\<rparr>"
  have req: "packetNode req = node" "pduCode req = TBX_MB_FC04_READ_INPUT_REGISTERS"
    "dataLen req = 4"
    by (simp_all add: req_def)
  obtain b0 b1 b2 b3 bs where bytes: "pduData (txPacket tp) = b0 # b1 # b2 # b3 # bs"
    using tx(2) by (auto simp add: Suc_le_length_iff numeral_eq_Suc)
  then have payload: "take 4 (pduData req) = [ucast (drop_bit 8 addr), ucast addr, 0, num]"
    by (simp add: req_def)
  have payload': "map unat (take 4 (pduData req))
      = [unat addr div 256, unat addr mod 256, 0, unat num]"
    unfolding payload list.map be16_high_byte by (simp only: be16_low_byte unsigned_0)
  show ?thesis
  proof (cases "node = TBX_MB_TP_NODE_ADDR_BROADCAST \<or> transmitRet env \<noteq> TBX_OK
                \<or> semTakeRet env = TBX_FALSE")
    case True
    show ?thesis
      using ReadInputRegs_no_response [OF live fcns(1,2) params tx True, of addr regs,
          folded req_def] req payload payload' True
      by auto
  next
    case False
    then have exchange: "node \<noteq> TBX_MB_TP_NODE_ADDR_BROADCAST" "transmitRet env = TBX_OK"
      "semTakeRet env \<noteq> TBX_FALSE"
      by simp_all
    show ?thesis
    proof (cases "getRxPacketRet env")
      case NULL
      show ?thesis
        using ReadInputRegs_unicast_no_packet [OF live fcns params tx exchange NULL,
            of addr regs, folded req_def] req payload payload' NULL
        by auto
    next
      case (Ptr rx)
      with sizes(2) have len: "2 * unat num + 1 \<le> length (pduData rx)"
        by simp
      then have nonempty: "0 < length (pduData rx)"
        by (cases "pduData rx") simp_all
      note run = ReadInputRegs_unicast_response [OF live fcns params tx exchange Ptr nonempty,
          of addr regs, folded req_def]
      show ?thesis
      proof (cases "packetNode rx = node \<and> \<not> bit (pduCode rx) 7
              \<and> unat (pduData rx ! 0) = unat num * 2
              \<and> unat (dataLen rx) = unat (pduData rx ! 0) + 1")
        case False
        then show ?thesis
          using run req payload payload' Ptr by auto
      next
        case True
        from ReadInputRegs_for_spec [OF len sizes(1), of 0]
        obtain out where out: "TbxMbClientReadInputRegs_for (pduData rx) num 0 regs = Some out"
          "length out = length regs" "\<forall>i. unat num \<le> i \<longrightarrow> out ! i = regs ! i"
          "\<forall>i. i < unat num \<longrightarrow> TbxMbClientExtractUInt16BE (pduData rx) (1 + i * 2)
               = Some (out ! i)"
          by auto
        have "unat (out ! i) = 256 * unat (pduData rx ! (1 + 2 * i))
                + unat (pduData rx ! (2 + 2 * i))" if "i < unat num" for i
        proof -
          from that len have "1 + i * 2 + 1 < length (pduData rx)"
            by simp
          with out(4) that
          have "out ! i = push_bit 8 (ucast (pduData rx ! (1 + i * 2)) :: 16 word)
                  OR ucast (pduData rx ! (1 + i * 2 + 1))"
            by (auto simp add: TbxMbClientExtractUInt16BE_def)
          then show ?thesis
            by (simp add: be16_value mult.commute)
        qed
        with True show ?thesis
          using run out(1-3) req payload payload' Ptr by auto
      qed
    qed
  qed
qed

theorem c2_read_input_regs_witness:
  "clients scenario_state 0 = Some scenario_client
   \<and> type scenario_client = TBX_MB_CLIENT_CONTEXT_TYPE
   \<and> tpCtx scenario_client = Ptr 0
   \<and> transports scenario_state 0 = Some scenario_transport
   \<and> getTxPacketFcn scenario_transport \<and> transmitFcn scenario_transport
   \<and> getRxPacketFcn scenario_transport \<and> receptionDoneFcn scenario_transport
   \<and> (5 :: 8 word) \<le> TBX_MB_TP_NODE_ADDR_MAX \<and> (1 :: 8 word) \<le> 3 \<and> (3 :: 8 word) \<le> 125
   \<and> getTxPacketRet scenario_env \<and> 4 \<le> length (pduData (txPacket scenario_transport))
   \<and> unat (3 :: 8 word) \<le> length [0, 0, 0 :: 16 word]
   \<and> getRxPacketRet scenario_env = Ptr scenario_response
   \<and> 2 * unat (3 :: 8 word) + 1 \<le> length (pduData scenario_response)
   \<and> TbxMbClientReadInputRegs scenario_env (Ptr 0) 5 100 3 (Ptr [0, 0, 0]) scenario_state
     = Some (TBX_OK, Ptr [10, 11, 12],
         scenario_state
           \<lparr>transports := [0 \<mapsto> scenario_transport
              \<lparr>txPacket := \<lparr>packetNode = 5, pduCode = 4,
                 pduData = [0x00, 0x64, 0x00, 0x03, 0, 0, 0, 0], dataLen = 4\<rparr>\<rparr>],
            calls := [CallGetTxPacket 0,
              CallTransmit 0 \<lparr>packetNode = 5, pduCode = 4,
                 pduData = [0x00, 0x64, 0x00, 0x03, 0, 0, 0, 0], dataLen = 4\<rparr>,
              CallSemTake (Ptr 7) 1000, CallGetRxPacket 0, CallReceptionDone 0]\<rparr>)"
proof -
  have live: "clients scenario_state 0 = Some scenario_client"
    "type scenario_client = TBX_MB_CLIENT_CONTEXT_TYPE"
    "tpCtx scenario_client = Ptr 0"
    "transports scenario_state 0 = Some scenario_transport"
    and fcns: "getTxPacketFcn scenario_transport" "transmitFcn scenario_transport"
    "getRxPacketFcn scenario_transport" "receptionDoneFcn scenario_transport"
    and params: "(5 :: 8 word) \<le> TBX_MB_TP_NODE_ADDR_MAX" "(1 :: 8 word) \<le> 3"
    "(3 :: 8 word) \<le> 125"
    and tx: "getTxPacketRet scenario_env" "4 \<le> length (pduData (txPacket scenario_transport))"
    and sizes: "unat (3 :: 8 word) \<le> length [0, 0, 0 :: 16 word]"
    and rx: "getRxPacketRet scenario_env = Ptr scenario_response"
    "2 * unat (3 :: 8 word) + 1 \<le> length (pduData scenario_response)"
    by (simp_all add: scenario_defs TBX_MB_TP_NODE_ADDR_MAX_def)
  from rx have sizes': "\<forall>rx. getRxPacketRet scenario_env = Ptr rx \<longrightarrow>
      2 * unat (3 :: 8 word) + 1 \<le> length (pduData rx)"
    by simp
  from c2_read_input_regs [OF live fcns params tx sizes sizes', of 100]
  obtain result out s' where run:
    "TbxMbClientReadInputRegs scenario_env (Ptr 0) 5 100 3 (Ptr [0, 0, 0]) scenario_state
       = Some (result, Ptr out, s')"
    by blast
  have "TbxMbClientReadInputRegs scenario_env (Ptr 0) 5 100 3 (Ptr [0, 0, 0]) scenario_state
     = Some (TBX_OK, Ptr [10, 11, 12],
         scenario_state
           \<lparr>transports := [0 \<mapsto> scenario_transport
              \<lparr>txPacket := \<lparr>packetNode = 5, pduCode = 4,
                 pduData = [0x00, 0x64, 0x00, 0x03, 0, 0, 0, 0], dataLen = 4\<rparr>\<rparr>],
            calls := [CallGetTxPacket 0,
              CallTransmit 0 \<lparr>packetNode = 5, pduCode = 4,
                 pduData = [0x00, 0x64, 0x00, 0x03, 0, 0, 0, 0], dataLen = 4\<rparr>,
              CallSemTake (Ptr 7) 1000, CallGetRxPacket 0, CallReceptionDone 0]\<rparr>)"
    by (simp add: scenario_defs TbxMbClientReadInputRegs_def TbxMbClientTransceive_def
        addr_of_def present_def set_transport_def call_def TBX_ASSERT_def Let_def
        TbxMbClientStoreUInt16BE_def TbxMbClientExtractUInt16BE_def array_load_def
        array_store_def TbxMbClientReadInputRegs_for.simps
        TBX_MB_TP_NODE_ADDR_MAX_def TBX_MB_TP_NODE_ADDR_BROADCAST_def
        TBX_MB_FC04_READ_INPUT_REGISTERS_def TBX_MB_FC_EXCEPTION_MASK_def
        TBX_OK_def TBX_TRUE_def TBX_FALSE_def TBX_ERROR_def)
  then show ?thesis
    using live fcns params tx sizes rx run by simp
qed

text \<open>
  C3. In a unicast call of \<open>TbxMbClientReadInputRegs\<close> whose exchange succeeds, the
  calls made are: access to the request buffer, transmit, semaphore take, access to
  the response packet and reception done, in this order; so reception done is called
  on the transport exactly once, whether the response is accepted, fails validation
  (other node, exception bit, byte count or data length) or cannot be accessed. On the
  last two paths the result is \<open>TBX_ERROR\<close> and the array is unchanged. The witness is
  the spec's scenario of a response with byte count 4 to a request for 3 registers.
\<close>

theorem c3_reception_done:
  fixes addr :: "16 word" and regs :: "16 word list"
  assumes live: "clients s a = Some ctx" "type ctx = TBX_MB_CLIENT_CONTEXT_TYPE"
      "tpCtx ctx = Ptr t" "transports s t = Some tp"
    and fcns: "getTxPacketFcn tp" "transmitFcn tp" "getRxPacketFcn tp" "receptionDoneFcn tp"
    and params: "node \<le> TBX_MB_TP_NODE_ADDR_MAX" "1 \<le> num" "num \<le> 125"
    and tx: "getTxPacketRet env" "4 \<le> length (pduData (txPacket tp))"
    and exchange: "node \<noteq> TBX_MB_TP_NODE_ADDR_BROADCAST" "transmitRet env = TBX_OK"
      "semTakeRet env \<noteq> TBX_FALSE"
    and sizes: "unat num \<le> length regs"
      "\<forall>rx. getRxPacketRet env = Ptr rx \<longrightarrow> 2 * unat num + 1 \<le> length (pduData rx)"
  shows "\<exists>result out s' req.
      TbxMbClientReadInputRegs env (Ptr a) node addr num (Ptr regs) s
        = Some (result, Ptr out, s')
    \<and> calls s' = calls s @ [CallGetTxPacket t, CallTransmit t req,
          CallSemTake (responseSem ctx) (responseTimeout ctx), CallGetRxPacket t,
          CallReceptionDone t]
    \<and> count_list (calls s') (CallReceptionDone t)
        = count_list (calls s) (CallReceptionDone t) + 1
    \<and> (getRxPacketRet env = NULL \<longrightarrow> result = TBX_ERROR \<and> out = regs)
    \<and> (\<forall>rx. getRxPacketRet env = Ptr rx \<longrightarrow>
          (if packetNode rx \<noteq> node \<or> bit (pduCode rx) 7
              \<or> unat (pduData rx ! 0) \<noteq> unat num * 2
              \<or> unat (dataLen rx) \<noteq> unat (pduData rx ! 0) + 1
           then result = TBX_ERROR \<and> out = regs
           else result = TBX_OK))"
proof (cases "getRxPacketRet env")
  case NULL
  show ?thesis
    unfolding ReadInputRegs_unicast_no_packet [OF live fcns params tx exchange NULL]
    using NULL by simp
next
  case (Ptr rx)
  with sizes(2) have len: "2 * unat num + 1 \<le> length (pduData rx)"
    by simp
  then have nonempty: "0 < length (pduData rx)"
    by (cases "pduData rx") simp_all
  note run = ReadInputRegs_unicast_response [OF live fcns params tx exchange Ptr nonempty,
      of addr regs]
  show ?thesis
  proof (cases "packetNode rx = node \<and> \<not> bit (pduCode rx) 7
          \<and> unat (pduData rx ! 0) = unat num * 2
          \<and> unat (dataLen rx) = unat (pduData rx ! 0) + 1")
    case False
    then show ?thesis
      unfolding run using Ptr by auto
  next
    case True
    from ReadInputRegs_for_spec [OF len sizes(1), of 0]
    obtain out where "TbxMbClientReadInputRegs_for (pduData rx) num 0 regs = Some out"
      by auto
    with True show ?thesis
      unfolding run using Ptr by auto
  qed
qed

theorem c3_reception_done_witness:
  "clients scenario_state 0 = Some scenario_client
   \<and> type scenario_client = TBX_MB_CLIENT_CONTEXT_TYPE
   \<and> tpCtx scenario_client = Ptr 0
   \<and> transports scenario_state 0 = Some scenario_transport
   \<and> getTxPacketFcn scenario_transport \<and> transmitFcn scenario_transport
   \<and> getRxPacketFcn scenario_transport \<and> receptionDoneFcn scenario_transport
   \<and> (5 :: 8 word) \<le> TBX_MB_TP_NODE_ADDR_MAX \<and> (1 :: 8 word) \<le> 3 \<and> (3 :: 8 word) \<le> 125
   \<and> getTxPacketRet scenario_env \<and> 4 \<le> length (pduData (txPacket scenario_transport))
   \<and> (5 :: 8 word) \<noteq> TBX_MB_TP_NODE_ADDR_BROADCAST
   \<and> transmitRet scenario_env = TBX_OK \<and> semTakeRet scenario_env \<noteq> TBX_FALSE
   \<and> unat (3 :: 8 word) \<le> length [7, 8, 9 :: 16 word]
   \<and> 2 * unat (3 :: 8 word) + 1 \<le> length [4, 0, 10, 0, 11, 0, 12 :: 8 word]
   \<and> TbxMbClientReadInputRegs
        (scenario_env\<lparr>getRxPacketRet := Ptr (scenario_response
           \<lparr>pduData := [4, 0, 10, 0, 11, 0, 12], dataLen := 5\<rparr>)\<rparr>)
        (Ptr 0) 5 100 3 (Ptr [7, 8, 9]) scenario_state
     = Some (TBX_ERROR, Ptr [7, 8, 9],
         scenario_state
           \<lparr>transports := [0 \<mapsto> scenario_transport
              \<lparr>txPacket := \<lparr>packetNode = 5, pduCode = 4,
                 pduData = [0x00, 0x64, 0x00, 0x03, 0, 0, 0, 0], dataLen = 4\<rparr>\<rparr>],
            calls := [CallGetTxPacket 0,
              CallTransmit 0 \<lparr>packetNode = 5, pduCode = 4,
                 pduData = [0x00, 0x64, 0x00, 0x03, 0, 0, 0, 0], dataLen = 4\<rparr>,
              CallSemTake (Ptr 7) 1000, CallGetRxPacket 0, CallReceptionDone 0]\<rparr>)"
proof -
  let ?env = "scenario_env\<lparr>getRxPacketRet := Ptr (scenario_response
           \<lparr>pduData := [4, 0, 10, 0, 11, 0, 12], dataLen := 5\<rparr>)\<rparr>"
  have live: "clients scenario_state 0 = Some scenario_client"
    "type scenario_client = TBX_MB_CLIENT_CONTEXT_TYPE"
    "tpCtx scenario_client = Ptr 0"
    "transports scenario_state 0 = Some scenario_transport"
    and fcns: "getTxPacketFcn scenario_transport" "transmitFcn scenario_transport"
    "getRxPacketFcn scenario_transport" "receptionDoneFcn scenario_transport"
    and params: "(5 :: 8 word) \<le> TBX_MB_TP_NODE_ADDR_MAX" "(1 :: 8 word) \<le> 3"
    "(3 :: 8 word) \<le> 125"
    and tx: "getTxPacketRet ?env" "4 \<le> length (pduData (txPacket scenario_transport))"
    and exchange: "(5 :: 8 word) \<noteq> TBX_MB_TP_NODE_ADDR_BROADCAST"
    "transmitRet ?env = TBX_OK" "semTakeRet ?env \<noteq> TBX_FALSE"
    and sizes: "unat (3 :: 8 word) \<le> length [7, 8, 9 :: 16 word]"
    "\<forall>rx. getRxPacketRet ?env = Ptr rx \<longrightarrow> 2 * unat (3 :: 8 word) + 1 \<le> length (pduData rx)"
    by (simp_all add: scenario_defs TBX_MB_TP_NODE_ADDR_MAX_def
        TBX_MB_TP_NODE_ADDR_BROADCAST_def)
  from c3_reception_done [OF live fcns params tx exchange sizes, of 100]
  obtain result out s' where run:
    "TbxMbClientReadInputRegs ?env (Ptr 0) 5 100 3 (Ptr [7, 8, 9]) scenario_state
       = Some (result, Ptr out, s')"
    "count_list (calls s') (CallReceptionDone 0)
       = count_list (calls scenario_state) (CallReceptionDone 0) + 1"
    by blast
  have "TbxMbClientReadInputRegs ?env (Ptr 0) 5 100 3 (Ptr [7, 8, 9]) scenario_state
     = Some (TBX_ERROR, Ptr [7, 8, 9],
         scenario_state
           \<lparr>transports := [0 \<mapsto> scenario_transport
              \<lparr>txPacket := \<lparr>packetNode = 5, pduCode = 4,
                 pduData = [0x00, 0x64, 0x00, 0x03, 0, 0, 0, 0], dataLen = 4\<rparr>\<rparr>],
            calls := [CallGetTxPacket 0,
              CallTransmit 0 \<lparr>packetNode = 5, pduCode = 4,
                 pduData = [0x00, 0x64, 0x00, 0x03, 0, 0, 0, 0], dataLen = 4\<rparr>,
              CallSemTake (Ptr 7) 1000, CallGetRxPacket 0, CallReceptionDone 0]\<rparr>)"
    by (simp add: scenario_defs TbxMbClientReadInputRegs_def TbxMbClientTransceive_def
        addr_of_def present_def set_transport_def call_def TBX_ASSERT_def Let_def
        TbxMbClientStoreUInt16BE_def array_load_def
        TBX_MB_TP_NODE_ADDR_MAX_def TBX_MB_TP_NODE_ADDR_BROADCAST_def
        TBX_MB_FC04_READ_INPUT_REGISTERS_def TBX_MB_FC_EXCEPTION_MASK_def
        TBX_OK_def TBX_TRUE_def TBX_FALSE_def TBX_ERROR_def)
  moreover from this run(1) have "result = TBX_ERROR \<and> out = [7, 8, 9]"
    by simp
  ultimately show ?thesis
    using live fcns params tx exchange sizes(1) by simp
qed

end
